theory Spec2Isabelle
  imports Complex_Main "HOL-Library.Sublist" "HOL-Library.AList"
begin

section \<open>Shared types (types.ts)\<close>

text \<open>
  JavaScript strings are modelled as \<^typ>\<open>string\<close>; \<open>s.includes(t)\<close> is
  \<^const>\<open>sublist\<close> \<open>t s\<close>. An optional field is an \<^typ>\<open>'a option\<close>. A
  thrown \<open>Error(message)\<close> is the value \<open>Error message\<close>; an error raised by
  the file system is \<open>SystemError code\<close>.
\<close>

datatype errno = ENOENT | ENOTDIR | EISDIR

datatype error = Error string | TypeError string | SystemError errno

record TemplateInfo =
  id :: string
  name :: "string option"
  description :: "string option"
  flavors :: "string list"
  flavorPaths :: "(string \<times> string) list option"
  path :: "string list"
  order :: "rat option"
  category :: "string option"
  aliases :: "string list option"
  hidden :: "bool option"
  deprecated :: "bool option"

text \<open>\<open>xs.join(sep)\<close>\<close>

fun join :: "string \<Rightarrow> string list \<Rightarrow> string" where
  "join sep [] = []"
| "join sep [x] = x"
| "join sep (x # y # ys) = x @ sep @ join sep (y # ys)"

section \<open>Flavor selection (flavor-selection.ts)\<close>

datatype FlavorSelectionReason = Cli | Default | Only | Prompt

record FlavorSelectionResult =
  flavor :: string
  reason :: FlavorSelectionReason

text \<open>
  The prompt callback resolves to a string or to \<open>null\<close> (\<open>None\<close>), or rejects
  with an error. \<open>selectFlavor\<close> returns its outcome together with the number of
  times it invoked the callback.
\<close>

record FlavorSelectionOptions =
  cliFlavor :: "string option"
  defaultFlavor :: string
  prompt :: "(TemplateInfo \<Rightarrow> error + string option) option"

text \<open>Truthiness of an optional string: \<open>undefined\<close>, \<open>null\<close> and \<open>""\<close> are falsy.\<close>

fun truthy :: "string option \<Rightarrow> bool" where
  "truthy None = False"
| "truthy (Some s) = (s \<noteq> [])"

definition flavorNotFoundCli :: "string \<Rightarrow> TemplateInfo \<Rightarrow> string" where
  \<open>flavorNotFoundCli f template =
     ''Flavor "'' @ f @ ''" not found for template "'' @ id template @ ''". '' @
     ''Available flavors: '' @ join '', '' (flavors template) @ ''.'' @ [CHR 0x0A] @
     ''Run with --list to see available templates.''\<close>

definition flavorNotFoundPrompt :: "string \<Rightarrow> TemplateInfo \<Rightarrow> string" where
  \<open>flavorNotFoundPrompt f template =
     ''Flavor "'' @ f @ ''" not found for template "'' @ id template @ ''". '' @
     ''Available flavors: '' @ join '', '' (flavors template) @ ''.''\<close>

definition selectFlavor ::
  "TemplateInfo \<Rightarrow> FlavorSelectionOptions \<Rightarrow> nat \<times> (error + FlavorSelectionResult)" where
  \<open>selectFlavor template options =
    (if flavors template = [] then
       (0, Inl (Error (''Template entry missing flavors for '' @ id template)))
     else if truthy (cliFlavor options) then
       (if the (cliFlavor options) \<notin> set (flavors template) then
          (0, Inl (Error (flavorNotFoundCli (the (cliFlavor options)) template)))
        else (0, Inr \<lparr>flavor = the (cliFlavor options), reason = Cli\<rparr>))
     else if defaultFlavor options \<in> set (flavors template) then
       (0, Inr \<lparr>flavor = defaultFlavor options, reason = Default\<rparr>)
     else if length (flavors template) = 1 then
       (0, Inr \<lparr>flavor = hd (flavors template), reason = Only\<rparr>)
     else
       (case prompt options of
          None \<Rightarrow>
            (0, Inl (Error (''Flavor selection required for template "'' @ id template @ ''"'')))
        | Some ask \<Rightarrow>
            (case ask template of
               Inl e \<Rightarrow> (1, Inl e)
             | Inr selectedFlavor \<Rightarrow>
                 if \<not> truthy selectedFlavor then
                   (1, Inl (Error ''Flavor selection cancelled''))
                 else if the selectedFlavor \<notin> set (flavors template) then
                   (1, Inl (Error (flavorNotFoundPrompt (the selectedFlavor) template)))
                 else (1, Inr \<lparr>flavor = the selectedFlavor, reason = Prompt\<rparr>))))\<close>


section \<open>Sanitizers (utils.ts)\<close>

text \<open>
  A character is a code unit below 256. The character classes of the regular
  expressions are predicates on the code; \<open>\s\<close> is the white space of ECMAScript in
  that range; \<open>toLowerCase\<close> maps \<open>A-Z\<close> and the upper-case letters of Latin-1.
\<close>

definition code :: "char \<Rightarrow> nat" where
  "code c = of_char c"

definition isSpace :: "char \<Rightarrow> bool" where
  "isSpace c = (code c \<in> {9, 10, 11, 12, 13, 32, 160})"

definition isLower :: "char \<Rightarrow> bool" where
  "isLower c = (97 \<le> code c \<and> code c \<le> 122)"

definition isDigit :: "char \<Rightarrow> bool" where
  "isDigit c = (48 \<le> code c \<and> code c \<le> 57)"

definition lowerChar :: "char \<Rightarrow> char" where
  "lowerChar c =
     (if (65 \<le> code c \<and> code c \<le> 90) \<or> (192 \<le> code c \<and> code c \<le> 222 \<and> code c \<noteq> 215)
      then char_of (code c + 32) else c)"

definition toLowerCase :: "string \<Rightarrow> string" where
  "toLowerCase s = map lowerChar s"

text \<open>\<open>s.replace(/[p]+/g, r)\<close>: every maximal run of characters in \<open>p\<close> becomes \<open>r\<close>.\<close>

function replaceRuns :: "(char \<Rightarrow> bool) \<Rightarrow> string \<Rightarrow> string \<Rightarrow> string" where
  "replaceRuns p r [] = []"
| "replaceRuns p r (c # cs) =
     (if p c then r @ replaceRuns p r (dropWhile p cs) else c # replaceRuns p r cs)"
  by pat_completeness auto
termination
  by (relation "measure (\<lambda>(p, r, s). length s)") (auto simp: length_dropWhile_le less_Suc_eq_le)

text \<open>\<open>s.replace(/[p]/g, r)\<close>: every character in \<open>p\<close> becomes \<open>r\<close>.\<close>

definition replaceEach :: "(char \<Rightarrow> bool) \<Rightarrow> string \<Rightarrow> string \<Rightarrow> string" where
  "replaceEach p r s = concat (map (\<lambda>c. if p c then r else [c]) s)"

text \<open>\<open>s.replace(/^[p]/, "")\<close>: a first character in \<open>p\<close> is removed, once.\<close>

fun stripFirst :: "(char \<Rightarrow> bool) \<Rightarrow> string \<Rightarrow> string" where
  "stripFirst p [] = []"
| "stripFirst p (c # cs) = (if p c then cs else c # cs)"

text \<open>
  \<open>s.replace(/^x|x$/g, "")\<close>: a leading \<open>x\<close> is removed, and of what follows a
  trailing \<open>x\<close>.
\<close>

definition stripEnds :: "char \<Rightarrow> string \<Rightarrow> string" where
  "stripEnds x s =
     (let s1 = stripFirst (\<lambda>c. c = x) s
      in if s1 \<noteq> [] \<and> last s1 = x then butlast s1 else s1)"

definition toPackageName :: "string \<Rightarrow> string" where
  "toPackageName name' =
     stripEnds (CHR ''-'')
       (replaceRuns (\<lambda>c. c = CHR ''-'') ''-''
         (stripFirst (\<lambda>c. \<not> (isLower c \<or> c = CHR ''@''))
           (replaceEach
              (\<lambda>c. \<not> (isLower c \<or> isDigit c \<or> c = CHR ''-'' \<or> c = CHR ''@'' \<or> c = CHR ''/'')) ''''
             (replaceEach (\<lambda>c. c = CHR ''_'') ''-''
               (replaceRuns isSpace ''-'' (toLowerCase name'))))))"

definition toPythonPackage :: "string \<Rightarrow> string" where
  "toPythonPackage name' =
     stripEnds (CHR ''_'')
       (replaceRuns (\<lambda>c. c = CHR ''_'') ''_''
         (stripFirst (\<lambda>c. \<not> isLower c)
           (replaceEach (\<lambda>c. \<not> (isLower c \<or> isDigit c \<or> c = CHR ''_'')) ''''
             (replaceEach (\<lambda>c. c = CHR ''-'') ''_''
               (replaceRuns isSpace ''_'' (toLowerCase name'))))))"

section \<open>The file system\<close>

text \<open>
  The file system is a tree: a file holds its text, a directory its entries in the order
  \<open>readdir\<close> lists them. A path is the list of its components from the root, as
  \<open>path.resolve\<close> and \<open>path.join\<close> leave it. Operations that read return a value
  or the code the call fails with; operations that write return the new tree.
\<close>

datatype node = File string | Dir "(string \<times> node) list"

type_synonym path = "string list"

fun stat :: "path \<Rightarrow> node \<Rightarrow> errno + node" where
  "stat [] n = Inr n"
| "stat (x # xs) (File c) = Inl ENOTDIR"
| "stat (x # xs) (Dir es) =
     (case map_of es x of None \<Rightarrow> Inl ENOENT | Some n \<Rightarrow> stat xs n)"

text \<open>\<open>fse.pathExists\<close>\<close>

definition pathExists :: "path \<Rightarrow> node \<Rightarrow> bool" where
  "pathExists p fs = (\<not> isl (stat p fs))"

text \<open>The helper \<open>isDirectory\<close> of templates.ts: \<open>false\<close> when \<open>stat\<close> fails.\<close>

definition isDirectory :: "path \<Rightarrow> node \<Rightarrow> bool" where
  "isDirectory p fs = (case stat p fs of Inr (Dir es) \<Rightarrow> True | _ \<Rightarrow> False)"

definition readFile :: "path \<Rightarrow> node \<Rightarrow> errno + string" where
  "readFile p fs =
     (case stat p fs of Inl e \<Rightarrow> Inl e | Inr (Dir es) \<Rightarrow> Inl EISDIR | Inr (File c) \<Rightarrow> Inr c)"

text \<open>\<open>fs.readdir(p, {withFileTypes: true})\<close>: the entries with their nodes.\<close>

definition readdir :: "path \<Rightarrow> node \<Rightarrow> errno + (string \<times> node) list" where
  "readdir p fs =
     (case stat p fs of Inl e \<Rightarrow> Inl e | Inr (File c) \<Rightarrow> Inl ENOTDIR | Inr (Dir es) \<Rightarrow> Inr es)"

text \<open>
  \<open>fs.writeFile(p, c)\<close> creates the file or replaces its content; the directory that
  is to hold it must exist.
\<close>

fun writeFile :: "path \<Rightarrow> string \<Rightarrow> node \<Rightarrow> errno + node" where
  "writeFile [] c (File old) = Inr (File c)"
| "writeFile [] c (Dir es) = Inl EISDIR"
| "writeFile (x # xs) c (File old) = Inl ENOTDIR"
| "writeFile (x # xs) c (Dir es) =
     (case map_of es x of
        None \<Rightarrow> if xs = [] then Inr (Dir (es @ [(x, File c)])) else Inl ENOENT
      | Some n \<Rightarrow>
          (case writeFile xs c n of
             Inl e \<Rightarrow> Inl e
           | Inr n' \<Rightarrow> Inr (Dir (AList.update x n' es))))"

definition copyFile :: "path \<Rightarrow> path \<Rightarrow> node \<Rightarrow> errno + node" where
  "copyFile src dest fs =
     (case readFile src fs of Inl e \<Rightarrow> Inl e | Inr c \<Rightarrow> writeFile dest c fs)"

text \<open>
  \<open>path.join(base, rel)\<close> for an absolute, normalised \<open>base\<close>, as the components of
  the joined path: the segments of \<open>rel\<close> are appended, empty and \<open>.\<close> segments
  dropped, \<open>..\<close> removing the last component. Whether a separator ends the joined
  path is kept apart (\<open>endsWithSeparator\<close> below); it makes no difference to
  \<open>isDirectory\<close>, which is false of a file with or without it.
\<close>

fun splitOn :: "char \<Rightarrow> string \<Rightarrow> string list" where
  "splitOn d [] = [[]]"
| "splitOn d (c # cs) =
     (if c = d then [] # splitOn d cs
      else (case splitOn d cs of [] \<Rightarrow> [[c]] | l # ls \<Rightarrow> (c # l) # ls))"

definition joinSegment :: "path \<Rightarrow> string \<Rightarrow> path" where
  "joinSegment p seg =
     (if seg = [] \<or> seg = ''.'' then p else if seg = ''..'' then butlast p else p @ [seg])"

definition pathJoin :: "path \<Rightarrow> string \<Rightarrow> path" where
  "pathJoin base rel = foldl joinSegment base (splitOn (CHR ''/'') rel)"

definition pathString :: "path \<Rightarrow> string" where
  "pathString p = (if p = [] then ''/'' else concat (map (\<lambda>s. ''/'' @ s) p))"

text \<open>
  \<open>path.join\<close> of several arguments keeps a separator that ends the last argument that
  is not empty. A path name is the joined path: its components, and whether a separator
  ends it (the root apart). \<open>fs.access\<close> of a path name succeeds when something is at
  the path; for a file followed by a separator it fails (\<open>ENOTDIR\<close>).
\<close>

type_synonym pathname = "path \<times> bool"

definition endsWithSeparator :: "string list \<Rightarrow> bool" where
  "endsWithSeparator args =
     (case rev (filter (\<lambda>a. a \<noteq> []) args) of [] \<Rightarrow> False | a # as \<Rightarrow> last a = CHR ''/'')"

definition pathJoinAll :: "path \<Rightarrow> string list \<Rightarrow> pathname" where
  "pathJoinAll base args =
     (foldl pathJoin base args, foldl pathJoin base args \<noteq> [] \<and> endsWithSeparator args)"

definition pathnameString :: "pathname \<Rightarrow> string" where
  "pathnameString pn = pathString (fst pn) @ (if snd pn then ''/'' else [])"

definition access :: "pathname \<Rightarrow> node \<Rightarrow> bool" where
  "access pn fs =
     (case stat (fst pn) fs of
        Inl e \<Rightarrow> False
      | Inr (File c) \<Rightarrow> \<not> snd pn
      | Inr (Dir es) \<Rightarrow> True)"

section \<open>Environment files and .gitignore (generator.ts)\<close>

text \<open>
  An operation that writes returns the error it throws, if any, and the file system it
  leaves.
\<close>

type_synonym outcome = "error option \<times> node"

definition ensureEnvFile :: "path \<Rightarrow> path \<Rightarrow> string \<Rightarrow> node \<Rightarrow> outcome" where
  "ensureEnvFile templateDir destDir name' fs =
     (let templatePath = pathJoin templateDir (''.env.'' @ name' @ ''.template'');
          outPath = pathJoin destDir (''.env.'' @ name')
      in if pathExists outPath fs then (None, fs)
         else if pathExists templatePath fs then
           (case copyFile templatePath outPath fs of
              Inl e \<Rightarrow> (Some (SystemError e), fs)
            | Inr fs' \<Rightarrow> (None, fs'))
         else (None, fs))"

text \<open>The loop over \<open>envNames\<close>; an error ends it.\<close>

fun ensureEnvFilesLoop :: "path \<Rightarrow> path \<Rightarrow> string list \<Rightarrow> node \<Rightarrow> outcome" where
  "ensureEnvFilesLoop templateDir destDir [] fs = (None, fs)"
| "ensureEnvFilesLoop templateDir destDir (n # ns) fs =
     (case ensureEnvFile templateDir destDir n fs of
        (Some e, fs') \<Rightarrow> (Some e, fs')
      | (None, fs') \<Rightarrow> ensureEnvFilesLoop templateDir destDir ns fs')"

definition ensureEnvFiles :: "path \<Rightarrow> path \<Rightarrow> node \<Rightarrow> outcome" where
  "ensureEnvFiles templateDir destDir fs =
     ensureEnvFilesLoop templateDir destDir [''agent'', ''client''] fs"

text \<open>\<open>content.split(/\r?\n/)\<close>\<close>

definition LF :: char where
  "LF = CHR 0x0A"

definition CR :: char where
  "CR = CHR 0x0D"

text \<open>
  A \<open>\n\<close> always separates; a \<open>\r\<close> just before it belongs to the separator.
\<close>

definition stripCR :: "string \<Rightarrow> string" where
  "stripCR l = (if l \<noteq> [] \<and> last l = CR then butlast l else l)"

definition splitLines :: "string \<Rightarrow> string list" where
  "splitLines s =
     (let segs = splitOn LF s in map stripCR (butlast segs) @ [last segs])"

text \<open>\<open>line.trim()\<close>\<close>

definition trim :: "string \<Rightarrow> string" where
  "trim s = rev (dropWhile isSpace (rev (dropWhile isSpace s)))"


definition gitignoreEntries :: "string list" where
  "gitignoreEntries = [''.env.agent'', ''.env.client'']"

definition missingEntries :: "string \<Rightarrow> string list" where
  "missingEntries content =
     (let existing = set (filter (\<lambda>line. length line > 0) (map trim (splitLines content)))
      in filter (\<lambda>entry. entry \<notin> existing) gitignoreEntries)"

definition updatedGitignore :: "string \<Rightarrow> string list \<Rightarrow> string" where
  "updatedGitignore content missing =
     content @ (if content \<noteq> [] \<and> last content = LF then [] else [LF]) @
     join [LF] missing @ [LF]"

definition ensureGitignoreHasEnvEntries :: "path \<Rightarrow> node \<Rightarrow> outcome" where
  "ensureGitignoreHasEnvEntries destDir fs =
     (let gitignorePath = pathJoin destDir ''.gitignore''
      in if \<not> pathExists gitignorePath fs then
           (case writeFile gitignorePath (join [LF] gitignoreEntries @ [LF]) fs of
              Inl e \<Rightarrow> (Some (SystemError e), fs)
            | Inr fs' \<Rightarrow> (None, fs'))
         else
           (case readFile gitignorePath fs of
              Inl e \<Rightarrow> (Some (SystemError e), fs)
            | Inr content \<Rightarrow>
                if missingEntries content = [] then (None, fs)
                else
                  (case writeFile gitignorePath
                          (updatedGitignore content (missingEntries content)) fs of
                     Inl e \<Rightarrow> (Some (SystemError e), fs)
                   | Inr fs' \<Rightarrow> (None, fs'))))"

section \<open>Template discovery (templates.ts)\<close>

text \<open>
  \<open>JSON.parse\<close> is a parameter of the model: \<open>parse raw\<close> is the parsed value, or
  \<open>None\<close> where \<open>JSON.parse\<close> throws. An object holds its properties, each key once.
\<close>

datatype json =
  JNull | JBool bool | JNum rat | JStr string | JArr "json list" | JObj "(string \<times> json) list"

text \<open>
  The fields of the manifest records carry the record's name, since \<open>id\<close>, \<open>name\<close>,
  \<open>path\<close> and \<open>flavors\<close> are fields of \<open>TemplateInfo\<close>. A falsy \<open>path\<close> of a
  flavor (absent, \<open>null\<close>, \<open>false\<close>, \<open>0\<close>) is \<open>None\<close>. The optional fields of
  an entry are read at their declared types: a value of another type, which the code
  passes on as it is, counts as absent.
\<close>

record TemplateManifestFlavor =
  flavorId :: string
  flavorPath :: "string option"

record TemplateManifestEntry =
  entryId :: string
  entryName :: string
  entryDescription :: string
  entryFlavors :: "TemplateManifestFlavor list"
  entryOrder :: "rat option"
  entryCategory :: "string option"
  entryAliases :: "string list option"
  entryHidden :: "bool option"
  entryDeprecated :: "bool option"

record TemplateManifest =
  version :: "rat option"
  templates :: "TemplateManifestEntry list"

definition TEMPLATES_DIR :: string where
  "TEMPLATES_DIR = ''templates''"

definition MANIFEST_FILENAME :: string where
  "MANIFEST_FILENAME = ''manifest.json''"

definition digit :: "nat \<Rightarrow> char" where
  "digit n = char_of (48 + n)"

text \<open>The decimal numeral of an index, as a template literal prints it.\<close>

fun showNat :: "nat \<Rightarrow> string" where
  "showNat n = (if n < 10 then [digit n] else showNat (n div 10) @ [digit (n mod 10)])"

declare showNat.simps [simp del]

definition errorMessage :: "error \<Rightarrow> string" where
  "errorMessage e =
     (case e of Error m \<Rightarrow> m
      | TypeError m \<Rightarrow> m
      | SystemError c \<Rightarrow>
          (case c of ENOENT \<Rightarrow> ''ENOENT'' | ENOTDIR \<Rightarrow> ''ENOTDIR'' | EISDIR \<Rightarrow> ''EISDIR''))"

definition getManifestPath :: "path \<Rightarrow> path" where
  "getManifestPath startersPath = pathJoin (pathJoin startersPath TEMPLATES_DIR) MANIFEST_FILENAME"

definition isAbsolute :: "string \<Rightarrow> bool" where
  "isAbsolute p = (p \<noteq> [] \<and> hd p = CHR ''/'')"

text \<open>\<open>typeof v === "string" && v.trim() !== ""\<close>\<close>

fun nonBlankString :: "json option \<Rightarrow> bool" where
  "nonBlankString (Some (JStr s)) = (trim s \<noteq> [])"
| "nonBlankString _ = False"

fun theString :: "json option \<Rightarrow> string" where
  "theString (Some (JStr s)) = s"
| "theString _ = []"

text \<open>
  A \<open>path\<close> that is truthy and not a string makes \<open>path.isAbsolute\<close> throw a
  \<open>TypeError\<close>; of its message, which Node composes, the model keeps the first
  sentence, before the description of the value received.
\<close>

definition normalizeManifestFlavor ::
  "json \<Rightarrow> string \<Rightarrow> nat \<Rightarrow> string \<Rightarrow> error + TemplateManifestFlavor" where
  \<open>normalizeManifestFlavor flavor' templateId flavorIndex manifestPath =
     (let invalid = Inl (Error (''Invalid flavor entry for '' @ templateId @ '' at index '' @
                          showNat flavorIndex @ '': '' @ manifestPath));
          missingId = Inl (Error (''Flavor entry missing id for '' @ templateId @ '' at index '' @
                          showNat flavorIndex @ '': '' @ manifestPath))
      in case flavor' of
           JStr s \<Rightarrow> Inr \<lparr>flavorId = s, flavorPath = None\<rparr>
         | JNull \<Rightarrow> invalid
         | JBool b \<Rightarrow> invalid
         | JNum r \<Rightarrow> invalid
         | JArr xs \<Rightarrow> missingId
         | JObj props \<Rightarrow>
             if \<not> nonBlankString (map_of props ''id'') then missingId
             else
               (case map_of props ''path'' of
                  None \<Rightarrow> Inr \<lparr>flavorId = theString (map_of props ''id''), flavorPath = None\<rparr>
                | Some (JStr p) \<Rightarrow>
                    if p \<noteq> [] \<and> isAbsolute p then
                      Inl (Error (''Flavor path must be relative for '' @ templateId @ ''/'' @
                             theString (map_of props ''id'') @ '': '' @ manifestPath))
                    else Inr \<lparr>flavorId = theString (map_of props ''id''), flavorPath = Some p\<rparr>
                | Some JNull \<Rightarrow>
                    Inr \<lparr>flavorId = theString (map_of props ''id''), flavorPath = None\<rparr>
                | Some (JBool b) \<Rightarrow>
                    if b then Inl (TypeError ''The "path" argument must be of type string'')
                    else Inr \<lparr>flavorId = theString (map_of props ''id''), flavorPath = None\<rparr>
                | Some (JNum r) \<Rightarrow>
                    if r \<noteq> 0 then Inl (TypeError ''The "path" argument must be of type string'')
                    else Inr \<lparr>flavorId = theString (map_of props ''id''), flavorPath = None\<rparr>
                | Some other \<Rightarrow> Inl (TypeError ''The "path" argument must be of type string'')))\<close>

text \<open>\<open>xs.map((x, index) => f(x, index))\<close> where \<open>f\<close> may throw\<close>

fun mapIndexed :: "('a \<Rightarrow> nat \<Rightarrow> error + 'b) \<Rightarrow> nat \<Rightarrow> 'a list \<Rightarrow> error + 'b list" where
  "mapIndexed f i [] = Inr []"
| "mapIndexed f i (x # xs) =
     (case f x i of
        Inl e \<Rightarrow> Inl e
      | Inr y \<Rightarrow> (case mapIndexed f (Suc i) xs of Inl e \<Rightarrow> Inl e | Inr ys \<Rightarrow> Inr (y # ys)))"

fun optNum :: "json option \<Rightarrow> rat option" where
  "optNum (Some (JNum r)) = Some r"
| "optNum _ = None"

fun optStr :: "json option \<Rightarrow> string option" where
  "optStr (Some (JStr s)) = Some s"
| "optStr _ = None"

fun optBool :: "json option \<Rightarrow> bool option" where
  "optBool (Some (JBool b)) = Some b"
| "optBool _ = None"

fun optStrs :: "json option \<Rightarrow> string list option" where
  "optStrs (Some (JArr xs)) = Some (map (\<lambda>x. theString (Some x)) xs)"
| "optStrs _ = None"

definition normalizeManifestEntry ::
  "json \<Rightarrow> string \<Rightarrow> nat \<Rightarrow> error + TemplateManifestEntry" where
  "normalizeManifestEntry entry manifestPath index =
     (let invalid = Inl (Error (''Invalid template entry at index '' @ showNat index @ '': '' @
                          manifestPath));
          missingId = Inl (Error (''Template entry missing id at index '' @ showNat index @
                          '': '' @ manifestPath))
      in case entry of
           JNull \<Rightarrow> invalid
         | JBool b \<Rightarrow> invalid
         | JNum r \<Rightarrow> invalid
         | JStr s \<Rightarrow> invalid
         | JArr xs \<Rightarrow> missingId
         | JObj props \<Rightarrow>
             if \<not> nonBlankString (map_of props ''id'') then missingId
             else if \<not> nonBlankString (map_of props ''name'') then
               Inl (Error (''Template entry missing name for '' @ theString (map_of props ''id'') @
                      '': '' @ manifestPath))
             else if \<not> nonBlankString (map_of props ''description'') then
               Inl (Error (''Template entry missing description for '' @
                      theString (map_of props ''id'') @ '': '' @ manifestPath))
             else
               (case map_of props ''flavors'' of
                  Some (JArr (f # fs)) \<Rightarrow>
                    (case mapIndexed
                            (\<lambda>flavor' flavorIndex.
                               normalizeManifestFlavor flavor' (theString (map_of props ''id''))
                                 flavorIndex manifestPath)
                            0 (f # fs) of
                       Inl e \<Rightarrow> Inl e
                     | Inr normalizedFlavors \<Rightarrow>
                         Inr \<lparr>entryId = theString (map_of props ''id''),
                              entryName = theString (map_of props ''name''),
                              entryDescription = theString (map_of props ''description''),
                              entryFlavors = normalizedFlavors,
                              entryOrder = optNum (map_of props ''order''),
                              entryCategory = optStr (map_of props ''category''),
                              entryAliases = optStrs (map_of props ''aliases''),
                              entryHidden = optBool (map_of props ''hidden''),
                              entryDeprecated = optBool (map_of props ''deprecated'')\<rparr>)
                | other \<Rightarrow>
                    Inl (Error (''Template entry missing flavors for '' @
                           theString (map_of props ''id'') @ '': '' @ manifestPath))))"

definition normalizeManifest :: "json \<Rightarrow> string \<Rightarrow> error + TemplateManifest" where
  "normalizeManifest data manifestPath =
     (let notObject = Inl (Error (''Manifest must be an object: '' @ manifestPath));
          noTemplates = Inl (Error (''Manifest must include a templates array: '' @ manifestPath))
      in case data of
           JNull \<Rightarrow> notObject
         | JBool b \<Rightarrow> notObject
         | JNum r \<Rightarrow> notObject
         | JStr s \<Rightarrow> notObject
         | JArr xs \<Rightarrow> noTemplates
         | JObj props \<Rightarrow>
             (case map_of props ''templates'' of
                Some (JArr entries) \<Rightarrow>
                  (case mapIndexed (\<lambda>entry index. normalizeManifestEntry entry manifestPath index)
                          0 entries of
                     Inl e \<Rightarrow> Inl e
                   | Inr ts \<Rightarrow> Inr \<lparr>version = optNum (map_of props ''version''), templates = ts\<rparr>)
              | other \<Rightarrow> noTemplates))"

definition readTemplateManifest ::
  "(string \<Rightarrow> json option) \<Rightarrow> path \<Rightarrow> node \<Rightarrow> error + TemplateManifest option" where
  "readTemplateManifest parse startersPath fs =
     (let manifestPath = getManifestPath startersPath
      in case readFile manifestPath fs of
           Inl ENOENT \<Rightarrow> Inr None
         | Inl other \<Rightarrow> Inl (Error (''Unable to read manifest: '' @ pathString manifestPath))
         | Inr raw \<Rightarrow>
             (case parse raw of
                None \<Rightarrow> Inl (Error (''Invalid JSON in manifest: '' @ pathString manifestPath))
              | Some parsed \<Rightarrow>
                  (case normalizeManifest parsed (pathString manifestPath) of
                     Inl e \<Rightarrow> Inl e
                   | Inr manifest \<Rightarrow> Inr (Some manifest))))"

definition buildManifestWarning :: "path \<Rightarrow> error \<Rightarrow> string" where
  "buildManifestWarning startersPath err =
     ''Warning: Unable to read '' @ pathString (getManifestPath startersPath) @ '' ('' @
     errorMessage err @ ''). Falling back to directory scan.''"

text \<open>\<open>flavor.path || flavor.id\<close>\<close>

definition relativePathOf :: "TemplateManifestFlavor \<Rightarrow> string" where
  "relativePathOf f = (if truthy (flavorPath f) then the (flavorPath f) else flavorId f)"

text \<open>
  The inner loop of \<open>templatesFromManifest\<close>, with the array \<open>flavors\<close> and the
  object \<open>flavorPaths\<close> it fills. \<open>flavorPaths\<close> starts as \<open>{}\<close>: assigning a
  string to its key \<open>__proto__\<close> stores nothing, so that key never becomes one of its
  own; any other key does.
\<close>

fun collectFlavors ::
  "path \<Rightarrow> node \<Rightarrow> TemplateManifestFlavor list \<Rightarrow> string list \<times> (string \<times> string) list \<Rightarrow>
   string list \<times> (string \<times> string) list" where
  "collectFlavors templatePath fs [] acc = acc"
| "collectFlavors templatePath fs (f # rest) (flavors', flavorPaths') =
     (if isDirectory (pathJoin templatePath (relativePathOf f)) fs then
        collectFlavors templatePath fs rest
          (flavors' @ [flavorId f],
           if relativePathOf f \<noteq> flavorId f \<and> flavorId f \<noteq> ''__proto__''
           then AList.update (flavorId f) (relativePathOf f) flavorPaths' else flavorPaths')
      else collectFlavors templatePath fs rest (flavors', flavorPaths'))"

fun templatesFromManifestLoop ::
  "path \<Rightarrow> node \<Rightarrow> TemplateManifestEntry list \<Rightarrow> TemplateInfo list" where
  "templatesFromManifestLoop templatesDir fs [] = []"
| "templatesFromManifestLoop templatesDir fs (entry # rest) =
     (let templatePath = pathJoin templatesDir (entryId entry)
      in if \<not> isDirectory templatePath fs then templatesFromManifestLoop templatesDir fs rest
         else
           (case collectFlavors templatePath fs (entryFlavors entry) ([], []) of
              (flavors', flavorPaths') \<Rightarrow>
                if flavors' = [] then templatesFromManifestLoop templatesDir fs rest
                else
                  \<lparr>id = entryId entry, name = Some (entryName entry),
                   description = Some (entryDescription entry), flavors = flavors',
                   flavorPaths = (if flavorPaths' \<noteq> [] then Some flavorPaths' else None),
                   path = templatePath, order = entryOrder entry, category = entryCategory entry,
                   aliases = entryAliases entry, hidden = entryHidden entry,
                   deprecated = entryDeprecated entry\<rparr>
                  # templatesFromManifestLoop templatesDir fs rest))"

definition templatesFromManifest :: "path \<Rightarrow> TemplateManifest \<Rightarrow> node \<Rightarrow> TemplateInfo list" where
  "templatesFromManifest startersPath manifest fs =
     templatesFromManifestLoop (pathJoin startersPath TEMPLATES_DIR) fs (templates manifest)"

definition isDir :: "node \<Rightarrow> bool" where
  "isDir n = (case n of Dir es \<Rightarrow> True | File c \<Rightarrow> False)"

fun scanTemplatesLoop :: "path \<Rightarrow> node \<Rightarrow> (string \<times> node) list \<Rightarrow> error + TemplateInfo list" where
  "scanTemplatesLoop templatesDir fs [] = Inr []"
| "scanTemplatesLoop templatesDir fs ((templateId, n) # rest) =
     (if \<not> isDir n then scanTemplatesLoop templatesDir fs rest
      else
        (case readdir (pathJoin templatesDir templateId) fs of
           Inl e \<Rightarrow> Inl (SystemError e)
         | Inr flavorDirs \<Rightarrow>
             (case scanTemplatesLoop templatesDir fs rest of
                Inl e \<Rightarrow> Inl e
              | Inr ts \<Rightarrow>
                  if map fst (filter (\<lambda>d. isDir (snd d)) flavorDirs) \<noteq> [] then
                    Inr (\<lparr>id = templateId, name = Some templateId, description = None,
                          flavors = map fst (filter (\<lambda>d. isDir (snd d)) flavorDirs),
                          flavorPaths = None, path = pathJoin templatesDir templateId,
                          order = None, category = None, aliases = None, hidden = None,
                          deprecated = None\<rparr> # ts)
                  else Inr ts)))"

definition scanTemplates :: "path \<Rightarrow> node \<Rightarrow> error + TemplateInfo list" where
  "scanTemplates startersPath fs =
     (let templatesDir = pathJoin startersPath TEMPLATES_DIR
      in if \<not> pathExists templatesDir fs then
           Inl (Error (''Templates directory not found: '' @ pathString templatesDir @ [LF] @
                  ''Make sure NAYLENCE_STARTERS_PATH points to the starters repo root.''))
         else
           (case readdir templatesDir fs of
              Inl e \<Rightarrow> Inl (SystemError e)
            | Inr templateDirs \<Rightarrow> scanTemplatesLoop templatesDir fs templateDirs))"

text \<open>
  \<open>sortTemplates\<close>: \<open>Array.prototype.sort\<close> is stable; \<open>localeCompare\<close> is a
  parameter. A template with no \<open>order\<close> sorts after every template that has one.
\<close>

definition sortName :: "TemplateInfo \<Rightarrow> string" where
  "sortName t = toLowerCase (if truthy (name t) then the (name t) else id t)"

definition compareTemplates :: "(string \<Rightarrow> string \<Rightarrow> int) \<Rightarrow> TemplateInfo \<Rightarrow> TemplateInfo \<Rightarrow> int" where
  "compareTemplates localeCompare a b =
     (case (order a, order b) of
        (Some x, Some y) \<Rightarrow>
          if x \<noteq> y then (if x < y then - 1 else 1) else localeCompare (sortName a) (sortName b)
      | (Some x, None) \<Rightarrow> - 1
      | (None, Some y) \<Rightarrow> 1
      | (None, None) \<Rightarrow> localeCompare (sortName a) (sortName b))"

fun insertSorted :: "('a \<Rightarrow> 'a \<Rightarrow> int) \<Rightarrow> 'a \<Rightarrow> 'a list \<Rightarrow> 'a list" where
  "insertSorted cmp x [] = [x]"
| "insertSorted cmp x (y # ys) =
     (if cmp x y \<le> 0 then x # y # ys else y # insertSorted cmp x ys)"

definition stableSort :: "('a \<Rightarrow> 'a \<Rightarrow> int) \<Rightarrow> 'a list \<Rightarrow> 'a list" where
  "stableSort cmp xs = foldr (insertSorted cmp) xs []"

definition sortTemplates :: "(string \<Rightarrow> string \<Rightarrow> int) \<Rightarrow> TemplateInfo list \<Rightarrow> TemplateInfo list" where
  "sortTemplates localeCompare ts = stableSort (compareTemplates localeCompare) ts"

text \<open>
  \<open>discoverTemplates\<close> returns the messages it passes to \<open>onWarning\<close> (none when no
  callback is supplied) and its result.
\<close>

definition discoverTemplates ::
  "(string \<Rightarrow> json option) \<Rightarrow> (string \<Rightarrow> string \<Rightarrow> int) \<Rightarrow> bool \<Rightarrow> path \<Rightarrow> node \<Rightarrow>
   string list \<times> (error + TemplateInfo list)" where
  "discoverTemplates parse localeCompare onWarning startersPath fs =
     (case readTemplateManifest parse startersPath fs of
        Inr (Some manifest) \<Rightarrow>
          ([], Inr (sortTemplates localeCompare (templatesFromManifest startersPath manifest fs)))
      | Inr None \<Rightarrow>
          ([], case scanTemplates startersPath fs of
                 Inl e \<Rightarrow> Inl e | Inr ts \<Rightarrow> Inr (sortTemplates localeCompare ts))
      | Inl err \<Rightarrow>
          (if onWarning then [buildManifestWarning startersPath err] else [],
           case scanTemplates startersPath fs of
             Inl e \<Rightarrow> Inl e | Inr ts \<Rightarrow> Inr (sortTemplates localeCompare ts)))"

definition getTemplatePath :: "path \<Rightarrow> string \<Rightarrow> string \<Rightarrow> pathname" where
  "getTemplatePath startersPath templateId flavor' =
     pathJoinAll startersPath [TEMPLATES_DIR, templateId, flavor']"

definition resolveTemplateFlavorPath ::
  "(string \<Rightarrow> json option) \<Rightarrow> path \<Rightarrow> string \<Rightarrow> string \<Rightarrow> node \<Rightarrow> pathname" where
  "resolveTemplateFlavorPath parse startersPath templateId flavor' fs =
     (case readTemplateManifest parse startersPath fs of
        Inr (Some manifest) \<Rightarrow>
          (case find (\<lambda>template. entryId template = templateId) (templates manifest) of
             None \<Rightarrow> getTemplatePath startersPath templateId flavor'
           | Some entry \<Rightarrow>
               (case find (\<lambda>item. flavorId item = flavor') (entryFlavors entry) of
                  None \<Rightarrow> getTemplatePath startersPath templateId flavor'
                | Some flavorInfo \<Rightarrow>
                    pathJoinAll startersPath
                      [TEMPLATES_DIR, templateId, relativePathOf flavorInfo]))
      | other \<Rightarrow> getTemplatePath startersPath templateId flavor')"

definition templateExists ::
  "(string \<Rightarrow> json option) \<Rightarrow> path \<Rightarrow> string \<Rightarrow> string \<Rightarrow> node \<Rightarrow> bool" where
  "templateExists parse startersPath templateId flavor' fs =
     isDirectory (fst (resolveTemplateFlavorPath parse startersPath templateId flavor' fs)) fs"

section \<open>Project generation (generator.ts)\<close>

definition BINARY_EXTENSIONS :: "string list" where
  "BINARY_EXTENSIONS =
     [''.png'', ''.jpg'', ''.jpeg'', ''.gif'', ''.ico'', ''.webp'', ''.svg'', ''.woff'', ''.woff2'',
      ''.ttf'', ''.eot'', ''.otf'', ''.zip'', ''.tar'', ''.gz'', ''.bz2'', ''.7z'', ''.rar'', ''.pdf'',
      ''.exe'', ''.dll'', ''.so'', ''.dylib'', ''.node'', ''.wasm'']"

definition PROJECT_NAME :: string where
  "PROJECT_NAME = ''__PROJECT_NAME__''"

definition PACKAGE_NAME :: string where
  "PACKAGE_NAME = ''__PACKAGE_NAME__''"

definition PY_PACKAGE :: string where
  "PY_PACKAGE = ''__PY_PACKAGE__''"

text \<open>
  \<open>path.extname\<close> of a file name: from the last dot on; empty when there is no dot,
  when the only dot comes first, and for \<open>..\<close>.
\<close>

definition extname :: "string \<Rightarrow> string" where
  "extname filename =
     (let k = length (takeWhile (\<lambda>c. c \<noteq> CHR ''.'') (rev filename))
      in if CHR ''.'' \<notin> set filename \<or> Suc k = length filename \<or> filename = ''..'' then []
         else drop (length filename - Suc k) filename)"

definition isBinaryFile :: "string \<Rightarrow> string list \<Rightarrow> bool" where
  "isBinaryFile filePath binaryExtensions = (toLowerCase (extname filePath) \<in> set binaryExtensions)"

text \<open>
  \<open>content.replaceAll(pattern, value)\<close> with a string pattern: the occurrences are
  found from the left and do not overlap, and what is put in is not searched again. In
  the value, \<open>$$\<close> stands for \<open>$\<close>, \<open>$&\<close> for the occurrence, \<open>$`\<close> for the text
  before it and \<open>$'\<close> for the text after it (\<open>GetSubstitution\<close>; a string pattern has
  no groups, so any other \<open>$\<close> stands for itself).
\<close>

fun getSubstitution :: "string \<Rightarrow> string \<Rightarrow> string \<Rightarrow> string \<Rightarrow> string" where
  "getSubstitution matched preceding following [] = []"
| "getSubstitution matched preceding following [c] = [c]"
| "getSubstitution matched preceding following (c # d # r) =
     (if c = CHR ''$'' \<and> d = CHR ''$'' then CHR ''$'' # getSubstitution matched preceding following r
      else if c = CHR ''$'' \<and> d = CHR ''&'' then matched @ getSubstitution matched preceding following r
      else if c = CHR ''$'' \<and> d = CHR 0x60 then preceding @ getSubstitution matched preceding following r
      else if c = CHR ''$'' \<and> d = CHR 0x27 then following @ getSubstitution matched preceding following r
      else c # getSubstitution matched preceding following (d # r))"

text \<open>\<open>replaceAllFrom preceding\<close> replaces in the text that comes after \<open>preceding\<close>.\<close>

function replaceAllFrom :: "string \<Rightarrow> string \<Rightarrow> string \<Rightarrow> string \<Rightarrow> string" where
  "replaceAllFrom preceding pattern v [] =
     (if pattern = [] then getSubstitution [] preceding [] v else [])"
| "replaceAllFrom preceding pattern v (c # cs) =
     (if pattern = [] then
        getSubstitution [] preceding (c # cs) v @ c # replaceAllFrom (preceding @ [c]) pattern v cs
      else if prefix pattern (c # cs) then
        getSubstitution pattern preceding (drop (length pattern) (c # cs)) v @
        replaceAllFrom (preceding @ pattern) pattern v (drop (length pattern) (c # cs))
      else c # replaceAllFrom (preceding @ [c]) pattern v cs)"
  by pat_completeness auto
termination
  by (relation "measure (\<lambda>(preceding, pattern, v, s). length s)") (auto simp: neq_Nil_conv)

definition replaceAll :: "string \<Rightarrow> string \<Rightarrow> string \<Rightarrow> string" where
  "replaceAll pattern v s = replaceAllFrom [] pattern v s"

definition buildSubstitutions :: "string \<Rightarrow> (string \<times> string) list" where
  "buildSubstitutions projectName =
     [(PROJECT_NAME, projectName),
      (PACKAGE_NAME, toPackageName projectName),
      (PY_PACKAGE, toPythonPackage projectName)]"

text \<open>The loop of \<open>substituteInFile\<close> over the substitutions, in their order.\<close>

fun substituteAll :: "(string \<times> string) list \<Rightarrow> string \<Rightarrow> string" where
  "substituteAll [] content = content"
| "substituteAll ((placeholder, v) # rest) content =
     (if sublist placeholder content then substituteAll rest (replaceAll placeholder v content)
      else substituteAll rest content)"

text \<open>
  \<open>substituteInFile\<close> gives the text the file holds afterwards: the file's own when it
  is skipped or nothing was replaced.
\<close>

definition substituteInFile :: "(string \<times> string) list \<Rightarrow> string \<Rightarrow> string \<Rightarrow> string" where
  "substituteInFile substitutions filePath content =
     (if isBinaryFile filePath BINARY_EXTENSIONS then content
      else substituteAll substitutions content)"

text \<open>
  \<open>substituteInDirectory\<close> walks the entries of a directory; the model works on the
  directory's subtree and puts the result back at the directory's path.
\<close>

function substituteEntries ::
  "(string \<times> string) list \<Rightarrow> (string \<times> node) list \<Rightarrow> (string \<times> node) list" where
  "substituteEntries substitutions [] = []"
| "substituteEntries substitutions ((entryName', File c) # es) =
     (entryName', File (substituteInFile substitutions entryName' c))
     # substituteEntries substitutions es"
| "substituteEntries substitutions ((entryName', Dir sub) # es) =
     (if entryName' = ''node_modules'' \<or> entryName' = ''.git'' then (entryName', Dir sub)
      else (entryName', Dir (substituteEntries substitutions sub)))
     # substituteEntries substitutions es"
  by pat_completeness auto
termination
  by (relation "measure (\<lambda>(substitutions, es). size_list (size_prod (\<lambda>x. 0) size) es)") auto

fun replaceAt :: "path \<Rightarrow> node \<Rightarrow> node \<Rightarrow> node" where
  "replaceAt [] new old = new"
| "replaceAt (x # xs) new (File c) = File c"
| "replaceAt (x # xs) new (Dir es) =
     (case map_of es x of
        None \<Rightarrow> Dir es
      | Some n \<Rightarrow> Dir (AList.update x (replaceAt xs new n) es))"

definition substituteInDirectory :: "path \<Rightarrow> (string \<times> string) list \<Rightarrow> node \<Rightarrow> outcome" where
  "substituteInDirectory dirPath substitutions fs =
     (case readdir dirPath fs of
        Inl e \<Rightarrow> (Some (SystemError e), fs)
      | Inr es \<Rightarrow> (None, replaceAt dirPath (Dir (substituteEntries substitutions es)) fs))"

definition targetNotDirectory :: "path \<Rightarrow> string" where
  "targetNotDirectory targetPath =
     ''Target path exists but is not a directory: '' @ pathString targetPath"

definition targetNotEmpty :: "path \<Rightarrow> string" where
  "targetNotEmpty targetPath =
     ''Target directory is not empty: '' @ pathString targetPath @ [LF] @
     ''Please choose an empty directory or a new path.''"

definition validateTargetDir :: "path \<Rightarrow> node \<Rightarrow> error option" where
  "validateTargetDir targetPath fs =
     (case stat targetPath fs of
        Inl ENOENT \<Rightarrow> None
      | Inl other \<Rightarrow> Some (SystemError other)
      | Inr (File c) \<Rightarrow> Some (Error (targetNotDirectory targetPath))
      | Inr (Dir contents) \<Rightarrow>
          if length contents > 0 then Some (Error (targetNotEmpty targetPath)) else None)"

definition EXCLUDE_DIRS :: "string list" where
  "EXCLUDE_DIRS = [''.git'', ''node_modules'', ''dist'', ''.tmp'', ''__pycache__'', ''.venv'', ''venv'']"

definition EXCLUDE_FILES :: "string list" where
  "EXCLUDE_FILES = [''package-lock.json'', ''pnpm-lock.yaml'', ''yarn.lock'', ''bun.lockb'', ''.env'']"

text \<open>The filter of \<open>copyTemplate\<close>, on the parts of the path relative to the source.\<close>

definition copyFilter :: "path \<Rightarrow> bool" where
  "copyFilter parts =
     (if parts = [] then True
      else if length parts = 1 \<and> last parts \<in> set EXCLUDE_FILES then False
      else if prefix ''.env.'' (last parts) \<and> suffix ''.template'' (last parts) then False
      else \<not> (\<exists>part\<in>set parts. part \<in> set EXCLUDE_DIRS))"

text \<open>
  \<open>fse.copy\<close> of the library fs-extra is a parameter: given the filter, the source and
  the destination it returns the error it throws, if any, and the file system it leaves.
\<close>

type_synonym fseCopy = "(path \<Rightarrow> bool) \<Rightarrow> pathname \<Rightarrow> path \<Rightarrow> node \<Rightarrow> outcome"

definition copyTemplate :: "fseCopy \<Rightarrow> pathname \<Rightarrow> path \<Rightarrow> node \<Rightarrow> outcome" where
  "copyTemplate copy src dest fs = copy copyFilter src dest fs"

record GeneratorOptions =
  targetDir :: path
  templateId :: string
  flavorName :: string
  projectName :: string
  startersPath :: path
  install :: bool

definition templateNotFound :: "string \<Rightarrow> string \<Rightarrow> pathname \<Rightarrow> string" where
  "templateNotFound tid fl templatePath =
     ''Template not found: '' @ tid @ ''/'' @ fl @ [LF] @
     ''Path: '' @ pathnameString templatePath @ [LF] @
     ''Run with --list to see available templates.''"

text \<open>
  The steps of \<open>generateProject\<close> up to the substitution, and the whole of it. The
  target directory is the resolved path.
\<close>

definition generateAndSubstitute ::
  "(string \<Rightarrow> json option) \<Rightarrow> fseCopy \<Rightarrow> GeneratorOptions \<Rightarrow> node \<Rightarrow> outcome" where
  "generateAndSubstitute parse copy options fs =
     (let templatePath = resolveTemplateFlavorPath parse (startersPath options)
                           (templateId options) (flavorName options) fs;
          targetPath = targetDir options
      in if \<not> access templatePath fs then
           (Some (Error (templateNotFound (templateId options) (flavorName options) templatePath)),
            fs)
         else
           (case validateTargetDir targetPath fs of
              Some e \<Rightarrow> (Some e, fs)
            | None \<Rightarrow>
                (case copyTemplate copy templatePath targetPath fs of
                   (Some e, fs1) \<Rightarrow> (Some e, fs1)
                 | (None, fs1) \<Rightarrow>
                     substituteInDirectory targetPath
                       (buildSubstitutions (projectName options)) fs1)))"

definition generateProject ::
  "(string \<Rightarrow> json option) \<Rightarrow> fseCopy \<Rightarrow> GeneratorOptions \<Rightarrow> node \<Rightarrow> outcome" where
  "generateProject parse copy options fs =
     (case generateAndSubstitute parse copy options fs of
        (Some e, fs2) \<Rightarrow> (Some e, fs2)
      | (None, fs2) \<Rightarrow>
          (case ensureEnvFiles
                  (fst (resolveTemplateFlavorPath parse (startersPath options)
                          (templateId options) (flavorName options) fs))
                  (targetDir options) fs2 of
             (Some e, fs3) \<Rightarrow> (Some e, fs3)
           | (None, fs3) \<Rightarrow> ensureGitignoreHasEnvEntries (targetDir options) fs3))"

text \<open>
  The placeholder tokens, and what the properties of the substitution speak of: a text
  that holds a token; a value with none of the patterns \<open>$&\<close>, \<open>$`\<close> and \<open>$'\<close>, so
  that what \<open>replaceAll\<close> puts in for it is the same text at every occurrence; two
  texts of which a beginning of the first, not empty, is an end of the second; a
  beginning \<open>a\<close> of a token after which the token, when written, is found earlier than
  where it was written, so that the search from the left never replaces a token that
  stands right after \<open>a\<close>; and the directories the walk skips.

  \<open>canFormToken token v\<close>: the text \<open>v\<close>, put in for the token, can make up the token
  with what stands around it. It holds the token; or it is part of it (as the empty
  text is); or it ends with a beginning of it; or it begins with an end \<open>x\<close> of it,
  and the rest \<open>a\<close> of the token can stand right before a replaced occurrence.
\<close>

definition PLACEHOLDERS :: "string list" where
  "PLACEHOLDERS = [PROJECT_NAME, PACKAGE_NAME, PY_PACKAGE]"

definition hasPlaceholder :: "string \<Rightarrow> bool" where
  "hasPlaceholder content = (\<exists>p\<in>set PLACEHOLDERS. sublist p content)"

fun plainValue :: "string \<Rightarrow> bool" where
  "plainValue [] = True"
| "plainValue [c] = True"
| "plainValue (c # d # r) =
     (if c = CHR ''$'' \<and> d = CHR ''$'' then plainValue r
      else if c = CHR ''$'' \<and> (d = CHR ''&'' \<or> d = CHR 0x60 \<or> d = CHR 0x27) then False
      else plainValue (d # r))"

definition beginsWithEndOf :: "string \<Rightarrow> string \<Rightarrow> bool" where
  "beginsWithEndOf a b = (\<exists>x\<in>set (prefixes a). x \<noteq> [] \<and> suffix x b)"

definition foundBefore :: "string \<Rightarrow> string \<Rightarrow> bool" where
  "foundBefore a token = (\<exists>j\<in>set [0..<length a]. prefix token (drop j (a @ token)))"

definition canFormToken :: "string \<Rightarrow> string \<Rightarrow> bool" where
  "canFormToken token v =
     (sublist token v \<or> sublist v token \<or> beginsWithEndOf token v \<or>
      (\<exists>x\<in>set (prefixes v). x \<noteq> [] \<and> suffix x token \<and>
          \<not> foundBefore (take (length token - length x) token) token))"

definition skipDir :: "string \<Rightarrow> bool" where
  "skipDir d = (d = ''node_modules'' \<or> d = ''.git'')"

section \<open>Well-formed file systems and the directory scan\<close>

text \<open>
  In a well-formed tree the entries of a directory have distinct names, and a name is not
  empty, not \<open>.\<close> or \<open>..\<close>, and has no \<open>/\<close>.
\<close>

definition validName :: "string \<Rightarrow> bool" where
  "validName n = (n \<noteq> [] \<and> n \<noteq> ''.'' \<and> n \<noteq> ''..'' \<and> CHR ''/'' \<notin> set n)"

fun wfNode :: "node \<Rightarrow> bool" where
  "wfNode (File c) = True"
| "wfNode (Dir es) =
     (distinct (map fst es) \<and> (\<forall>e\<in>set es. validName (fst e) \<and> wfNode (snd e)))"

text \<open>What the inner loop keeps true of the flavors and paths collected so far.\<close>

definition collected ::
  "path \<Rightarrow> node \<Rightarrow> TemplateManifestFlavor list \<Rightarrow> string list \<times> (string \<times> string) list \<Rightarrow> bool" where
  "collected tp fs declared acc =
     ((\<forall>k p. map_of (snd acc) k = Some p \<longrightarrow> isDirectory (pathJoin tp p) fs) \<and>
      (\<forall>f\<in>set (fst acc). \<exists>mf\<in>set declared.
          flavorId mf = f \<and> isDirectory (pathJoin tp (relativePathOf mf)) fs))"

text \<open>
  The directory scan in the words of the specification: every immediate subdirectory of
  the templates directory with at least one immediate subdirectory is a template; its id
  and name are the directory's name, its flavors the names of its subdirectories, and it
  has no description.
\<close>

definition subdirectories :: "node \<Rightarrow> string list" where
  "subdirectories n =
     (case n of File c \<Rightarrow> [] | Dir es \<Rightarrow> map fst (filter (\<lambda>d. isDir (snd d)) es))"

definition scannedTemplate :: "path \<Rightarrow> string \<Rightarrow> string list \<Rightarrow> TemplateInfo" where
  "scannedTemplate templatesDir d fl =
     \<lparr>id = d, name = Some d, description = None, flavors = fl, flavorPaths = None,
      path = templatesDir @ [d], order = None, category = None, aliases = None, hidden = None,
      deprecated = None\<rparr>"

definition directoryScan :: "path \<Rightarrow> (string \<times> node) list \<Rightarrow> TemplateInfo list" where
  "directoryScan templatesDir es =
     map (\<lambda>e. scannedTemplate templatesDir (fst e) (subdirectories (snd e)))
       (filter (\<lambda>e. subdirectories (snd e) \<noteq> []) es)"

section \<open>Example inputs\<close>

definition mkTemplate :: "string \<Rightarrow> string list \<Rightarrow> TemplateInfo" where
  "mkTemplate i fs =
     \<lparr>id = i, name = None, description = None, flavors = fs, flavorPaths = None,
      path = [''tmp'', i], order = None, category = None, aliases = None, hidden = None,
      deprecated = None\<rparr>"

definition promptPy :: "TemplateInfo \<Rightarrow> error + string option" where
  "promptPy t = Inr (Some ''py'')"

definition promptRust :: "TemplateInfo \<Rightarrow> error + string option" where
  "promptRust t = Inr (Some ''rust'')"

definition promptEmpty :: "TemplateInfo \<Rightarrow> error + string option" where
  "promptEmpty t = Inr (Some [])"



definition fsEnvTemplateDir :: node where
  "fsEnvTemplateDir =
     Dir [(''tpl'', Dir [(''.env.agent.template'', Dir []),
                         (''.env.client.template'', File ''client=1'')]),
          (''out'', Dir [])]"

definition fsEnvExample :: node where
  "fsEnvExample =
     Dir [(''tpl'', Dir [(''.env.agent.template'', File ''existing=replace''),
                         (''.env.client.template'', File ''client=__PROJECT_NAME__'')]),
          (''out'', Dir [(''.env.agent'', File ''existing=keep'')])]"

text \<open>
  A copy for the examples: the tree at the source, filtered, is put at a destination
  that does not exist or is an empty directory (missing parents are made), which is where
  \<open>generateProject\<close> copies to.
\<close>

function filterEntries :: "(path \<Rightarrow> bool) \<Rightarrow> path \<Rightarrow> (string \<times> node) list \<Rightarrow> (string \<times> node) list" where
  "filterEntries keep rel [] = []"
| "filterEntries keep rel ((n, File c) # es) =
     (if keep (rel @ [n]) then [(n, File c)] else []) @ filterEntries keep rel es"
| "filterEntries keep rel ((n, Dir sub) # es) =
     (if keep (rel @ [n]) then [(n, Dir (filterEntries keep (rel @ [n]) sub))] else [])
     @ filterEntries keep rel es"
  by pat_completeness auto
termination
  by (relation "measure (\<lambda>(keep, rel, es). size_list (size_prod (\<lambda>x. 0) size) es)") auto

fun putNode :: "path \<Rightarrow> node \<Rightarrow> node \<Rightarrow> errno + node" where
  "putNode [] new old = Inr new"
| "putNode (x # xs) new (File c) = Inl ENOTDIR"
| "putNode (x # xs) new (Dir es) =
     (case map_of es x of
        None \<Rightarrow>
          (case putNode xs new (Dir []) of
             Inl e \<Rightarrow> Inl e
           | Inr n' \<Rightarrow> Inr (Dir (es @ [(x, n')])))
      | Some n \<Rightarrow>
          (case putNode xs new n of
             Inl e \<Rightarrow> Inl e
           | Inr n' \<Rightarrow> Inr (Dir (AList.update x n' es))))"

definition copyIntoEmpty :: fseCopy where
  "copyIntoEmpty keep src dest fs =
     (case stat (fst src) fs of
        Inl e \<Rightarrow> (Some (SystemError e), fs)
      | Inr n \<Rightarrow>
          (case putNode dest (case n of File c \<Rightarrow> File c | Dir es \<Rightarrow> Dir (filterEntries keep [] es)) fs of
             Inl e \<Rightarrow> (Some (SystemError e), fs)
           | Inr fs' \<Rightarrow> (None, fs')))"

definition noParse :: "string \<Rightarrow> json option" where
  "noParse raw = None"

definition fsStarters :: node where
  "fsStarters =
     Dir [(''starters'', Dir [(''templates'', Dir [(''agent'', Dir [(''ts'', Dir [
            (''README.md'', File ''# __PROJECT_NAME__ (__PY_PACKAGE__)''),
            (''package.json'', File ''{ name: __PACKAGE_NAME__ }''),
            (''logo.png'', File ''__PROJECT_NAME__''),
            (''.env.agent.template'', File ''KEY=''),
            (''node_modules'', Dir [(''dep.js'', File ''__PROJECT_NAME__'')]),
            (''src'', Dir [(''index.ts'', File ''// __PROJECT_NAME__'')])])])])]),
          (''work'', Dir [(''busy'', Dir [(''existing.txt'', File ''content'')])])]"

definition optionsFor :: "string \<Rightarrow> GeneratorOptions" where
  "optionsFor n =
     \<lparr>targetDir = [''work'', n], templateId = ''agent'', flavorName = ''ts'', projectName = n,
      startersPath = [''starters''], install = False\<rparr>"

definition optionsMissingTemplate :: GeneratorOptions where
  "optionsMissingTemplate = (optionsFor ''busy'')\<lparr>templateId := ''missing''\<rparr>"

definition optionsFileTarget :: GeneratorOptions where
  "optionsFileTarget = (optionsFor ''busy'')\<lparr>targetDir := [''work'', ''busy'', ''existing.txt'']\<rparr>"

definition optionsFileWithSeparator :: GeneratorOptions where
  "optionsFileWithSeparator = (optionsFor ''busy'')\<lparr>flavorName := ''ts/README.md/''\<rparr>"

fun compareCodes :: "string \<Rightarrow> string \<Rightarrow> int" where
  "compareCodes [] [] = 0"
| "compareCodes [] (y # ys) = - 1"
| "compareCodes (x # xs) [] = 1"
| "compareCodes (x # xs) (y # ys) =
     (if code x < code y then - 1 else if code y < code x then 1 else compareCodes xs ys)"

definition fsManifest :: node where
  "fsManifest =
     Dir [(''starters'', Dir [(''templates'', Dir [
            (''manifest.json'', File ''manifest''),
            (''agent'', Dir [(''ts'', Dir []), (''python'', Dir [])]),
            (''ghost'', Dir [])])])]"

definition parseManifest :: "string \<Rightarrow> json option" where
  "parseManifest raw =
     (if raw = ''manifest'' then
        Some (JObj [(''templates'', JArr [
          JObj [(''id'', JStr ''agent''), (''name'', JStr ''Agent on Sentinel''),
                (''description'', JStr ''Starter agent''),
                (''flavors'', JArr [JStr ''ts'',
                                   JObj [(''id'', JStr ''py''), (''path'', JStr ''python'')],
                                   JStr ''go'',
                                   JObj [(''id'', JStr ''__proto__''),
                                         (''path'', JStr ''python'')]])],
          JObj [(''id'', JStr ''ghost''), (''name'', JStr ''Ghost''),
                (''description'', JStr ''No flavor on disk''),
                (''flavors'', JArr [JStr ''ts''])]])])
      else None)"

definition fsBadManifest :: node where
  "fsBadManifest =
     Dir [(''starters'', Dir [(''templates'', Dir [
            (''manifest.json'', File ''{ invalid''),
            (''sample-template'', Dir [(''ts'', Dir [])]),
            (''notes.txt'', File ''not a template''),
            (''empty'', Dir [])])])]"

definition agentInfo :: TemplateInfo where
  "agentInfo =
     \<lparr>id = ''agent'', name = Some ''Agent on Sentinel'', description = Some ''Starter agent'',
      flavors = [''ts'', ''py'', ''__proto__''], flavorPaths = Some [(''py'', ''python'')],
      path = [''starters'', ''templates'', ''agent''], order = None, category = None,
      aliases = None, hidden = None, deprecated = None\<rparr>"

section \<open>Properties of flavor selection\<close>

text \<open>
  C1, as stated, fails: its clauses on the default, the only flavor and the prompt apply
  whenever the requested flavor is not both given and in the list, so for flavors
  \<open>[ts]\<close>, default \<open>ts\<close> and the requested flavor \<open>py\<close> it promises the default;
  the code rejects a requested flavor that is not in the list. And an empty answer of
  the prompt is a cancellation, also when the empty string is one of the flavors.
\<close>

theorem selectFlavor_precedence_counterexample:
  "flavors (mkTemplate ''sample'' [''ts'']) \<noteq> [] \<and>
   ''py'' \<notin> set (flavors (mkTemplate ''sample'' [''ts''])) \<and>
   ''ts'' \<in> set (flavors (mkTemplate ''sample'' [''ts''])) \<and>
   selectFlavor (mkTemplate ''sample'' [''ts''])
       \<lparr>cliFlavor = Some ''py'', defaultFlavor = ''ts'', prompt = None\<rparr>
     \<noteq> (0, Inr \<lparr>flavor = ''ts'', reason = Default\<rparr>) \<and>
   isl (snd (selectFlavor (mkTemplate ''sample'' [''ts''])
       \<lparr>cliFlavor = Some ''py'', defaultFlavor = ''ts'', prompt = None\<rparr>)) \<and>
   promptEmpty (mkTemplate ''sample'' [[], ''py'']) = Inr (Some []) \<and>
   [] \<in> set (flavors (mkTemplate ''sample'' [[], ''py''])) \<and>
   selectFlavor (mkTemplate ''sample'' [[], ''py''])
       \<lparr>cliFlavor = None, defaultFlavor = ''ts'', prompt = Some promptEmpty\<rparr>
     = (1, Inl (Error ''Flavor selection cancelled''))"
  by (simp add: selectFlavor_def mkTemplate_def promptEmpty_def)

text \<open>
  C1 (amended): for a template with at least one flavor, a requested flavor that is
  given and not empty decides alone: in the list it is selected with reason \<open>cli\<close>, not
  in the list the selection fails, both without a prompt. With no requested flavor
  (absent or empty) the default is selected when it is in the list, else the only flavor
  when there is exactly one, both without a prompt; else a supplied prompt is invoked
  exactly once, and a non-empty answer in the list is selected with reason \<open>prompt\<close>.
\<close>

theorem selectFlavor_precedence:
  "flavors t \<noteq> [] \<Longrightarrow>
    (truthy (cliFlavor opts) \<and> the (cliFlavor opts) \<in> set (flavors t) \<longrightarrow>
       selectFlavor t opts = (0, Inr \<lparr>flavor = the (cliFlavor opts), reason = Cli\<rparr>)) \<and>
    (truthy (cliFlavor opts) \<and> the (cliFlavor opts) \<notin> set (flavors t) \<longrightarrow>
       fst (selectFlavor t opts) = 0 \<and> isl (snd (selectFlavor t opts))) \<and>
    (\<not> truthy (cliFlavor opts) \<and> defaultFlavor opts \<in> set (flavors t) \<longrightarrow>
       selectFlavor t opts = (0, Inr \<lparr>flavor = defaultFlavor opts, reason = Default\<rparr>)) \<and>
    (\<not> truthy (cliFlavor opts) \<and> defaultFlavor opts \<notin> set (flavors t) \<and> flavors t = [f] \<longrightarrow>
       selectFlavor t opts = (0, Inr \<lparr>flavor = f, reason = Only\<rparr>)) \<and>
    (\<not> truthy (cliFlavor opts) \<and> defaultFlavor opts \<notin> set (flavors t) \<and>
     length (flavors t) \<noteq> 1 \<and> prompt opts = Some ask \<longrightarrow>
       fst (selectFlavor t opts) = 1 \<and>
       (ask t = Inr (Some s) \<and> s \<noteq> [] \<and> s \<in> set (flavors t) \<longrightarrow>
          snd (selectFlavor t opts) = Inr \<lparr>flavor = s, reason = Prompt\<rparr>))"
  by (auto simp: selectFlavor_def split: sum.splits)

theorem selectFlavor_precedence_witness:
  "selectFlavor (mkTemplate ''sample'' [''ts'', ''py''])
      \<lparr>cliFlavor = Some ''py'', defaultFlavor = ''ts'', prompt = Some promptPy\<rparr>
     = (0, Inr \<lparr>flavor = ''py'', reason = Cli\<rparr>) \<and>
   selectFlavor (mkTemplate ''sample'' [''ts'', ''py''])
      \<lparr>cliFlavor = None, defaultFlavor = ''ts'', prompt = Some promptPy\<rparr>
     = (0, Inr \<lparr>flavor = ''ts'', reason = Default\<rparr>) \<and>
   selectFlavor (mkTemplate ''sample'' [''py''])
      \<lparr>cliFlavor = None, defaultFlavor = ''ts'', prompt = Some promptPy\<rparr>
     = (0, Inr \<lparr>flavor = ''py'', reason = Only\<rparr>) \<and>
   selectFlavor (mkTemplate ''sample'' [''py'', ''go''])
      \<lparr>cliFlavor = None, defaultFlavor = ''ts'', prompt = Some promptPy\<rparr>
     = (1, Inr \<lparr>flavor = ''py'', reason = Prompt\<rparr>)"
  using
    selectFlavor_precedence [of "mkTemplate ''sample'' [''ts'', ''py'']"
      "\<lparr>cliFlavor = Some ''py'', defaultFlavor = ''ts'', prompt = Some promptPy\<rparr>"]
    selectFlavor_precedence [of "mkTemplate ''sample'' [''ts'', ''py'']"
      "\<lparr>cliFlavor = None, defaultFlavor = ''ts'', prompt = Some promptPy\<rparr>"]
    selectFlavor_precedence [of "mkTemplate ''sample'' [''py'']"
      "\<lparr>cliFlavor = None, defaultFlavor = ''ts'', prompt = Some promptPy\<rparr>" "''py''"]
    selectFlavor_precedence [of "mkTemplate ''sample'' [''py'', ''go'']"
      "\<lparr>cliFlavor = None, defaultFlavor = ''ts'', prompt = Some promptPy\<rparr>" "''py''"
      promptPy "''py''"]
  by (simp add: mkTemplate_def promptPy_def prod_eq_iff)

text \<open>
  C9, as stated, fails: when no flavor can be determined and no prompt is available,
  the message names the template only; it neither lists the flavors nor mentions
  \<open>--list\<close>.
\<close>

theorem selectFlavor_error_message_counterexample:
  \<open>selectFlavor (mkTemplate ''sample'' [''py'', ''go''])
       \<lparr>cliFlavor = None, defaultFlavor = ''ts'', prompt = None\<rparr>
     = (0, Inl (Error ''Flavor selection required for template "sample"'')) \<and>
   \<not> sublist ''--list'' ''Flavor selection required for template "sample"'' \<and>
   \<not> sublist (join '', '' (flavors (mkTemplate ''sample'' [''py'', ''go''])))
       ''Flavor selection required for template "sample"''\<close>
  by (simp add: selectFlavor_def mkTemplate_def sublist_code)

lemma flavorNotFoundCli_lists:
  "sublist (join '', '' (flavors t)) (flavorNotFoundCli f t) \<and>
   sublist ''--list'' (flavorNotFoundCli f t)"
proof
  show "sublist (join '', '' (flavors t)) (flavorNotFoundCli f t)"
    unfolding sublist_def flavorNotFoundCli_def by (metis append.assoc)
  show "sublist ''--list'' (flavorNotFoundCli f t)"
    unfolding sublist_def flavorNotFoundCli_def
    by (rule exI [of _ \<open>''Flavor "'' @ f @ ''" not found for template "'' @ id t @ ''". '' @
          ''Available flavors: '' @ join '', '' (flavors t) @ ''.'' @ [CHR 0x0A] @
          ''Run with ''\<close>],
        rule exI [of _ "'' to see available templates.''"]) simp
qed

lemma flavorNotFoundPrompt_lists:
  "sublist (join '', '' (flavors t)) (flavorNotFoundPrompt f t)"
  unfolding sublist_def flavorNotFoundPrompt_def by (metis append.assoc)

text \<open>
  C9 (amended): of the failures of \<open>selectFlavor\<close>, the one for a requested,
  non-empty flavor that is not in the template's flavor list produces a message that
  enumerates the valid flavors and points at \<open>--list\<close>; the one for a non-empty
  prompt answer that is not in the list produces a message that enumerates the valid
  flavors.
\<close>

theorem selectFlavor_error_message:
  "flavors t \<noteq> [] \<Longrightarrow>
    (truthy (cliFlavor opts) \<and> the (cliFlavor opts) \<notin> set (flavors t) \<longrightarrow>
       (\<exists>msg. selectFlavor t opts = (0, Inl (Error msg)) \<and>
              sublist (join '', '' (flavors t)) msg \<and> sublist ''--list'' msg)) \<and>
    (\<not> truthy (cliFlavor opts) \<and> defaultFlavor opts \<notin> set (flavors t) \<and>
     length (flavors t) \<noteq> 1 \<and> prompt opts = Some ask \<and>
     ask t = Inr (Some s) \<and> s \<noteq> [] \<and> s \<notin> set (flavors t) \<longrightarrow>
       (\<exists>msg. selectFlavor t opts = (1, Inl (Error msg)) \<and>
              sublist (join '', '' (flavors t)) msg))"
  by (simp add: selectFlavor_def flavorNotFoundCli_lists flavorNotFoundPrompt_lists)

theorem selectFlavor_error_message_witness:
  "(\<exists>msg. selectFlavor (mkTemplate ''sample'' [''ts''])
            \<lparr>cliFlavor = Some ''py'', defaultFlavor = ''ts'', prompt = None\<rparr>
          = (0, Inl (Error msg)) \<and>
         sublist ''ts'' msg \<and> sublist ''--list'' msg) \<and>
   (\<exists>msg. selectFlavor (mkTemplate ''sample'' [''py'', ''go''])
            \<lparr>cliFlavor = None, defaultFlavor = ''ts'', prompt = Some promptRust\<rparr>
          = (1, Inl (Error msg)) \<and>
         sublist ''py, go'' msg)"
  using
    selectFlavor_error_message [of "mkTemplate ''sample'' [''ts'']"
       "\<lparr>cliFlavor = Some ''py'', defaultFlavor = ''ts'', prompt = None\<rparr>"]
    selectFlavor_error_message [of "mkTemplate ''sample'' [''py'', ''go'']"
       "\<lparr>cliFlavor = None, defaultFlavor = ''ts'', prompt = Some promptRust\<rparr>"
       promptRust "''rust''"]
  by (simp add: mkTemplate_def promptRust_def)

lemma flavorNotFoundPrompt_not_Cli_empty:
  assumes "s \<noteq> []"
  shows "flavorNotFoundPrompt s t \<noteq> flavorNotFoundCli [] t"
proof
  let ?q = \<open>CHR 0x22\<close>
  let ?rest = \<open>id t @ ''". Available flavors: '' @ join '', '' (flavors t) @ ''.''\<close>
  let ?tail = "CHR 0x0A # ''Run with --list to see available templates.''"
  assume "flavorNotFoundPrompt s t = flavorNotFoundCli [] t"
  then have eq: \<open>s @ ''" not found for template "'' @ ?rest
               = (''" not found for template "'' @ ?rest) @ ?tail\<close>
    by (simp add: flavorNotFoundPrompt_def flavorNotFoundCli_def)
  from assms obtain x xs where s: "s = x # xs" by (cases s) auto
  from eq s have "x = ?q" by simp
  then have "count_list s ?q \<noteq> 0" using s by simp
  moreover from arg_cong [OF eq, of "\<lambda>l. count_list l ?q"]
  have "count_list s ?q = count_list ?tail ?q" by simp
  moreover have "count_list ?tail ?q = 0" by simp
  ultimately show False by simp
qed

lemma flavorNotFoundPrompt_not_Prompt_empty:
  assumes "s \<noteq> []"
  shows "flavorNotFoundPrompt s t \<noteq> flavorNotFoundPrompt [] t"
proof
  assume "flavorNotFoundPrompt s t = flavorNotFoundPrompt [] t"
  then have "length (flavorNotFoundPrompt s t) = length (flavorNotFoundPrompt [] t)" by simp
  with assms show False by (simp add: flavorNotFoundPrompt_def)
qed

text \<open>
  C10: an empty requested flavor is treated like an absent one. For a template with at
  least one flavor and the requested flavor \<open>""\<close>: the default is selected when it is in
  the list; else the only flavor when there is exactly one; else, with no prompt, the
  selection fails as "required"; else the prompt is invoked once and decides: its error
  is the outcome, no answer or an empty one is a cancellation, an answer not in the
  list fails as not found for that answer, an answer in the list is selected. The
  outcome and the number of prompts are those of the call with no requested flavor. And
  the call never fails with a flavor-not-found error for \<open>""\<close>, in either of its two
  wordings, unless the prompt itself rejects with that very error.
\<close>

theorem selectFlavor_empty_cli_absent:
  "selectFlavor t (opts\<lparr>cliFlavor := Some []\<rparr>) = selectFlavor t (opts\<lparr>cliFlavor := None\<rparr>) \<and>
   (flavors t \<noteq> [] \<longrightarrow>
      (defaultFlavor opts \<in> set (flavors t) \<longrightarrow>
         selectFlavor t (opts\<lparr>cliFlavor := Some []\<rparr>)
           = (0, Inr \<lparr>flavor = defaultFlavor opts, reason = Default\<rparr>)) \<and>
      (defaultFlavor opts \<notin> set (flavors t) \<and> flavors t = [f] \<longrightarrow>
         selectFlavor t (opts\<lparr>cliFlavor := Some []\<rparr>) = (0, Inr \<lparr>flavor = f, reason = Only\<rparr>)) \<and>
      (defaultFlavor opts \<notin> set (flavors t) \<and> length (flavors t) \<noteq> 1 \<and> prompt opts = None \<longrightarrow>
         selectFlavor t (opts\<lparr>cliFlavor := Some []\<rparr>)
           = (0, Inl (Error (''Flavor selection required for template '' @ [CHR 0x22] @ id t @
                              [CHR 0x22])))) \<and>
      (defaultFlavor opts \<notin> set (flavors t) \<and> length (flavors t) \<noteq> 1 \<and>
       prompt opts = Some ask \<longrightarrow>
         selectFlavor t (opts\<lparr>cliFlavor := Some []\<rparr>)
           = (1, case ask t of
                   Inl e \<Rightarrow> Inl e
                 | Inr None \<Rightarrow> Inl (Error ''Flavor selection cancelled'')
                 | Inr (Some s) \<Rightarrow>
                     if s = [] then Inl (Error ''Flavor selection cancelled'')
                     else if s \<notin> set (flavors t) then Inl (Error (flavorNotFoundPrompt s t))
                     else Inr \<lparr>flavor = s, reason = Prompt\<rparr>))) \<and>
   ((\<forall>ask. prompt opts = Some ask \<longrightarrow>
        ask t \<noteq> Inl (Error (flavorNotFoundCli [] t)) \<and>
        ask t \<noteq> Inl (Error (flavorNotFoundPrompt [] t))) \<longrightarrow>
      snd (selectFlavor t (opts\<lparr>cliFlavor := Some []\<rparr>)) \<noteq> Inl (Error (flavorNotFoundCli [] t)) \<and>
      snd (selectFlavor t (opts\<lparr>cliFlavor := Some []\<rparr>)) \<noteq> Inl (Error (flavorNotFoundPrompt [] t)))"
proof (intro conjI impI)
  show "selectFlavor t (opts\<lparr>cliFlavor := Some []\<rparr>) = selectFlavor t (opts\<lparr>cliFlavor := None\<rparr>)"
    by (simp add: selectFlavor_def)
next
  assume "flavors t \<noteq> []" "defaultFlavor opts \<in> set (flavors t)"
  then show "selectFlavor t (opts\<lparr>cliFlavor := Some []\<rparr>)
           = (0, Inr \<lparr>flavor = defaultFlavor opts, reason = Default\<rparr>)"
    by (simp add: selectFlavor_def)
next
  assume "flavors t \<noteq> []" "defaultFlavor opts \<notin> set (flavors t) \<and> flavors t = [f]"
  then show "selectFlavor t (opts\<lparr>cliFlavor := Some []\<rparr>) = (0, Inr \<lparr>flavor = f, reason = Only\<rparr>)"
    by (auto simp: selectFlavor_def)
next
  assume "flavors t \<noteq> []"
    "defaultFlavor opts \<notin> set (flavors t) \<and> length (flavors t) \<noteq> 1 \<and> prompt opts = None"
  then show "selectFlavor t (opts\<lparr>cliFlavor := Some []\<rparr>)
           = (0, Inl (Error (''Flavor selection required for template '' @ [CHR 0x22] @ id t @
                              [CHR 0x22])))"
    by (simp add: selectFlavor_def)
next
  assume "flavors t \<noteq> []"
    "defaultFlavor opts \<notin> set (flavors t) \<and> length (flavors t) \<noteq> 1 \<and> prompt opts = Some ask"
  then show "selectFlavor t (opts\<lparr>cliFlavor := Some []\<rparr>)
           = (1, case ask t of
                   Inl e \<Rightarrow> Inl e
                 | Inr None \<Rightarrow> Inl (Error ''Flavor selection cancelled'')
                 | Inr (Some s) \<Rightarrow>
                     if s = [] then Inl (Error ''Flavor selection cancelled'')
                     else if s \<notin> set (flavors t) then Inl (Error (flavorNotFoundPrompt s t))
                     else Inr \<lparr>flavor = s, reason = Prompt\<rparr>)"
    by (simp add: selectFlavor_def split: sum.splits option.splits)
next
  assume h: "\<forall>ask. prompt opts = Some ask \<longrightarrow>
        ask t \<noteq> Inl (Error (flavorNotFoundCli [] t)) \<and>
        ask t \<noteq> Inl (Error (flavorNotFoundPrompt [] t))"
  let ?r = "selectFlavor t (opts\<lparr>cliFlavor := Some []\<rparr>)"
  have a: "''Template entry missing flavors for '' @ id t \<noteq> flavorNotFoundCli [] t"
    "''Flavor selection required for template '' @ [CHR 0x22] @ id t @ [CHR 0x22] \<noteq> flavorNotFoundCli [] t"
    "''Flavor selection cancelled'' \<noteq> flavorNotFoundCli [] t"
    "''Template entry missing flavors for '' @ id t \<noteq> flavorNotFoundPrompt [] t"
    "''Flavor selection required for template '' @ [CHR 0x22] @ id t @ [CHR 0x22] \<noteq> flavorNotFoundPrompt [] t"
    "''Flavor selection cancelled'' \<noteq> flavorNotFoundPrompt [] t"
    by (simp_all add: flavorNotFoundCli_def flavorNotFoundPrompt_def)
  have both: "snd ?r \<noteq> Inl (Error (flavorNotFoundCli [] t)) \<and>
              snd ?r \<noteq> Inl (Error (flavorNotFoundPrompt [] t))"
  proof (cases "flavors t = []")
    case True
    with a(1,4) show ?thesis by (simp add: selectFlavor_def)
  next
    case ne: False
    show ?thesis
    proof (cases "defaultFlavor opts \<in> set (flavors t) \<or> length (flavors t) = 1")
      case True
      with ne show ?thesis by (auto simp: selectFlavor_def)
    next
      case nd: False
      show ?thesis
      proof (cases "prompt opts")
        case None
        with ne nd a(2,5) show ?thesis by (simp add: selectFlavor_def)
      next
        case (Some ask)
        show ?thesis
        proof (cases "ask t")
          case (Inl e)
          with h Some ne nd show ?thesis by (auto simp: selectFlavor_def)
        next
          case (Inr sel)
          show ?thesis
          proof (cases "truthy sel")
            case False
            with Inr Some ne nd a(3,6) show ?thesis by (simp add: selectFlavor_def)
          next
            case True
            then obtain s where s: "sel = Some s" "s \<noteq> []" by (cases sel) auto
            from flavorNotFoundPrompt_not_Cli_empty [OF s(2), of t]
              flavorNotFoundPrompt_not_Prompt_empty [OF s(2), of t] s Inr Some ne nd
            show ?thesis by (simp add: selectFlavor_def)
          qed
        qed
      qed
    qed
  qed
  from both show "snd ?r \<noteq> Inl (Error (flavorNotFoundCli [] t))" ..
  from both show "snd ?r \<noteq> Inl (Error (flavorNotFoundPrompt [] t))" ..
qed

theorem selectFlavor_empty_cli_absent_witness:
  "selectFlavor (mkTemplate ''sample'' [''ts'', ''py''])
      \<lparr>cliFlavor = Some [], defaultFlavor = ''ts'', prompt = None\<rparr>
     = (0, Inr \<lparr>flavor = ''ts'', reason = Default\<rparr>) \<and>
   selectFlavor (mkTemplate ''sample'' [''py''])
      \<lparr>cliFlavor = Some [], defaultFlavor = ''ts'', prompt = None\<rparr>
     = (0, Inr \<lparr>flavor = ''py'', reason = Only\<rparr>) \<and>
   selectFlavor (mkTemplate ''sample'' [''py'', ''go''])
      \<lparr>cliFlavor = Some [], defaultFlavor = ''ts'', prompt = None\<rparr>
     = (0, Inl (Error (''Flavor selection required for template '' @ [CHR 0x22] @ ''sample'' @
                        [CHR 0x22]))) \<and>
   selectFlavor (mkTemplate ''sample'' [''py'', ''go''])
      \<lparr>cliFlavor = Some [], defaultFlavor = ''ts'', prompt = Some promptPy\<rparr>
     = (1, Inr \<lparr>flavor = ''py'', reason = Prompt\<rparr>) \<and>
   selectFlavor (mkTemplate ''sample'' [''py'', ''go''])
      \<lparr>cliFlavor = Some [], defaultFlavor = ''ts'', prompt = Some promptRust\<rparr>
     = (1, Inl (Error (flavorNotFoundPrompt ''rust'' (mkTemplate ''sample'' [''py'', ''go''])))) \<and>
   snd (selectFlavor (mkTemplate ''sample'' [''py'', ''go''])
      \<lparr>cliFlavor = Some [], defaultFlavor = ''ts'', prompt = Some promptRust\<rparr>)
     \<noteq> Inl (Error (flavorNotFoundCli [] (mkTemplate ''sample'' [''py'', ''go'']))) \<and>
   selectFlavor (mkTemplate ''sample'' [[], ''py''])
      \<lparr>cliFlavor = Some [], defaultFlavor = ''ts'', prompt = Some promptEmpty\<rparr>
     = (1, Inl (Error ''Flavor selection cancelled''))"
  using
    selectFlavor_empty_cli_absent [of "mkTemplate ''sample'' [''ts'', ''py'']"
      "\<lparr>cliFlavor = None, defaultFlavor = ''ts'', prompt = None\<rparr>", THEN conjunct2]
    selectFlavor_empty_cli_absent [of "mkTemplate ''sample'' [''py'']"
      "\<lparr>cliFlavor = None, defaultFlavor = ''ts'', prompt = None\<rparr>" "''py''", THEN conjunct2]
    selectFlavor_empty_cli_absent [of "mkTemplate ''sample'' [''py'', ''go'']"
      "\<lparr>cliFlavor = None, defaultFlavor = ''ts'', prompt = None\<rparr>", THEN conjunct2]
    selectFlavor_empty_cli_absent [of "mkTemplate ''sample'' [''py'', ''go'']"
      "\<lparr>cliFlavor = None, defaultFlavor = ''ts'', prompt = Some promptPy\<rparr>" _ promptPy, THEN conjunct2]
    selectFlavor_empty_cli_absent [of "mkTemplate ''sample'' [''py'', ''go'']"
      "\<lparr>cliFlavor = None, defaultFlavor = ''ts'', prompt = Some promptRust\<rparr>" _ promptRust, THEN conjunct2]
    selectFlavor_empty_cli_absent [of "mkTemplate ''sample'' [[], ''py'']"
      "\<lparr>cliFlavor = None, defaultFlavor = ''ts'', prompt = Some promptEmpty\<rparr>" _ promptEmpty, THEN conjunct2]
  by (simp add: mkTemplate_def promptPy_def promptRust_def promptEmpty_def
        flavorNotFoundPrompt_def flavorNotFoundCli_def)

section \<open>Properties of the file system\<close>

lemma map_of_snoc: "map_of (es @ [(x, v)]) y = (case map_of es y of None \<Rightarrow> if y = x then Some v else None | Some n \<Rightarrow> Some n)"
  by (induction es) auto

lemma stat_writeFile_same: "writeFile p c fs = Inr fs' \<Longrightarrow> stat p fs' = Inr (File c)"
proof (induction p arbitrary: fs fs')
  case Nil
  then show ?case by (cases fs) auto
next
  case (Cons x xs)
  then show ?case
    by (cases fs) (auto simp: map_of_snoc update_conv' split: option.splits sum.splits if_splits)
qed

lemma stat_writeFile_other:
  "writeFile p c fs = Inr fs' \<Longrightarrow> \<not> prefix p q \<Longrightarrow> \<not> prefix q p \<Longrightarrow> stat q fs' = stat q fs"
proof (induction p arbitrary: fs fs' q)
  case Nil
  then show ?case by simp
next
  case (Cons x xs)
  show ?case
  proof (cases q)
    case Nil
    with Cons.prems show ?thesis by simp
  next
    case (Cons y ys)
    with Cons.prems Cons.IH show ?thesis
      by (cases fs) (auto simp: map_of_snoc update_conv' split: option.splits sum.splits if_splits)
  qed
qed

lemma stat_writeFile_below:
  "writeFile p c fs = Inr fs' \<Longrightarrow> prefix p q \<Longrightarrow> q \<noteq> p \<Longrightarrow> isl (stat q fs') \<and> isl (stat q fs)"
proof (induction p arbitrary: fs fs' q)
  case Nil
  then show ?case by (cases fs; cases q) auto
next
  case (Cons x xs)
  show ?case
  proof (cases q)
    case Nil
    with Cons.prems show ?thesis by simp
  next
    case (Cons y ys)
    with Cons.prems Cons.IH show ?thesis
      by (cases fs) (auto simp: map_of_snoc update_conv' split: option.splits sum.splits if_splits)
  qed
qed

lemma stat_writeFile_above:
  "writeFile p c fs = Inr fs' \<Longrightarrow> prefix q p \<Longrightarrow> q \<noteq> p \<Longrightarrow>
     (\<exists>es. stat q fs' = Inr (Dir es)) \<and> (\<exists>es. stat q fs = Inr (Dir es))"
proof (induction p arbitrary: fs fs' q)
  case Nil
  then show ?case by simp
next
  case (Cons x xs)
  show ?case
  proof (cases q)
    case Nil
    with Cons.prems show ?thesis by (cases fs) (auto split: option.splits sum.splits if_splits)
  next
    case (Cons y ys)
    with Cons.prems Cons.IH show ?thesis
      by (cases fs) (auto simp: map_of_snoc update_conv' split: option.splits sum.splits if_splits)
  qed
qed


lemma pathExists_writeFile:
  assumes "writeFile p c fs = Inr fs'"
  shows "pathExists q fs' = (q = p \<or> pathExists q fs)"
proof (cases "q = p")
  case True
  with assms show ?thesis by (simp add: pathExists_def stat_writeFile_same)
next
  case False
  consider "prefix p q" | "prefix q p" | "\<not> prefix p q" "\<not> prefix q p" by blast
  then show ?thesis
  proof cases
    case 1
    with assms False show ?thesis using stat_writeFile_below [of p c fs fs' q]
      by (simp add: pathExists_def)
  next
    case 2
    with assms False show ?thesis using stat_writeFile_above [of p c fs fs' q]
      by (auto simp add: pathExists_def)
  next
    case 3
    with assms False show ?thesis by (simp add: pathExists_def stat_writeFile_other)
  qed
qed

lemma readFile_writeFile_other:
  assumes "writeFile p c fs = Inr fs'" and "q \<noteq> p"
  shows "(readFile q fs' = Inr c0) = (readFile q fs = Inr c0)"
proof -
  consider "prefix p q" | "prefix q p" | "\<not> prefix p q" "\<not> prefix q p" by blast
  then show ?thesis
  proof cases
    case 1
    with assms show ?thesis using stat_writeFile_below [of p c fs fs' q]
      by (auto simp add: readFile_def split: sum.splits)
  next
    case 2
    with assms show ?thesis using stat_writeFile_above [of p c fs fs' q]
      by (auto simp add: readFile_def)
  next
    case 3
    with assms show ?thesis by (simp add: readFile_def stat_writeFile_other)
  qed
qed

lemma readFile_writeFile_same: "writeFile p c fs = Inr fs' \<Longrightarrow> readFile p fs' = Inr c"
  by (simp add: readFile_def stat_writeFile_same)

lemma writeFile_not_dir: "writeFile p c fs = Inr fs' \<Longrightarrow> stat p fs \<noteq> Inr (Dir es)"
proof (induction p arbitrary: fs fs')
  case Nil
  then show ?case by (cases fs) auto
next
  case (Cons x xs)
  then show ?case
    by (cases fs) (auto split: option.splits sum.splits if_splits)
qed

lemma isDirectory_writeFile:
  assumes "writeFile p c fs = Inr fs'"
  shows "isDirectory q fs' = isDirectory q fs"
proof (cases "q = p")
  case True
  from assms have "\<not> isDirectory p fs"
    by (auto simp: isDirectory_def writeFile_not_dir split: sum.splits node.splits)
  with assms True show ?thesis by (simp add: isDirectory_def stat_writeFile_same)
next
  case False
  consider "prefix p q" | "prefix q p" | "\<not> prefix p q" "\<not> prefix q p" by blast
  then show ?thesis
  proof cases
    case 1
    with assms False show ?thesis using stat_writeFile_below [of p c fs fs' q]
      by (auto simp add: isDirectory_def split: sum.splits)
  next
    case 2
    with assms False show ?thesis using stat_writeFile_above [of p c fs fs' q]
      by (auto simp add: isDirectory_def)
  next
    case 3
    with assms False show ?thesis by (simp add: isDirectory_def stat_writeFile_other)
  qed
qed

lemma writeFile_new:
  "isDirectory d fs \<Longrightarrow> \<not> pathExists (d @ [x]) fs \<Longrightarrow> \<exists>fs'. writeFile (d @ [x]) c fs = Inr fs'"
proof (induction d arbitrary: fs)
  case Nil
  then show ?case
    by (cases fs) (auto simp: isDirectory_def pathExists_def split: option.splits)
next
  case (Cons y ys)
  show ?case
  proof (cases fs)
    case (File c0)
    with Cons.prems show ?thesis by (simp add: isDirectory_def)
  next
    case (Dir es)
    with Cons.prems obtain n where n: "map_of es y = Some n" "isDirectory ys n" "\<not> pathExists (ys @ [x]) n"
      by (auto simp: isDirectory_def pathExists_def split: option.splits)
    from Cons.IH [OF n(2,3)] obtain n' where "writeFile (ys @ [x]) c n = Inr n'" by blast
    with Dir n show ?thesis by simp
  qed
qed


section \<open>Properties of the .gitignore step\<close>









lemma splitOn_none: "d \<notin> set s \<Longrightarrow> splitOn d s = [s]"
  by (induction s) auto














section \<open>Properties of the sanitizers\<close>

text \<open>
  C2 does not hold of the code: \<open>/^[^a-z@]/\<close> and \<open>/^[^a-z]/\<close> remove one leading
  character only, so a name with two leading digits keeps the second: the result does
  not start with a letter, as the functions' comments say it does, and a second
  application removes one character more.
\<close>

theorem sanitizers_not_idempotent:
  "toPackageName ''11a'' = ''1a'' \<and> toPackageName (toPackageName ''11a'') = ''a'' \<and>
   toPythonPackage ''11a'' = ''1a'' \<and> toPythonPackage (toPythonPackage ''11a'') = ''a'' \<and>
   \<not> isLower (hd (toPackageName ''11a'')) \<and> \<not> isLower (hd (toPythonPackage ''11a''))"
  by code_simp

section \<open>Properties of the env file step\<close>

lemma pathJoin_env:
  "pathJoin d (''.env.'' @ ''agent'') = d @ [''.env.agent'']"
  "pathJoin d (''.env.'' @ ''client'') = d @ [''.env.client'']"
  "pathJoin t (''.env.'' @ ''agent'' @ ''.template'') = t @ [''.env.agent.template'']"
  "pathJoin t (''.env.'' @ ''client'' @ ''.template'') = t @ [''.env.client.template'']"
  by (simp_all add: pathJoin_def joinSegment_def)

text \<open>One round of the loop either leaves the file system or writes the template's text to the missing env file.\<close>

lemma ensureEnvFile_cases:
  assumes "ensureEnvFile t d n fs = (e, fs')"
    and "outPath = pathJoin d (''.env.'' @ n)"
    and "templatePath = pathJoin t (''.env.'' @ n @ ''.template'')"
  shows "(fs' = fs \<and> (e = None \<longrightarrow> pathExists outPath fs \<or> \<not> pathExists templatePath fs)) \<or>
         (e = None \<and> \<not> pathExists outPath fs \<and>
          (\<exists>c. readFile templatePath fs = Inr c \<and> writeFile outPath c fs = Inr fs'))"
  using assms
  by (auto simp: ensureEnvFile_def Let_def copyFile_def split: if_splits sum.splits)

lemma ensureEnvFile_fails:
  assumes "ensureEnvFile t d n fs = (Some e, fs')"
    and "outPath = pathJoin d (''.env.'' @ n)"
    and "templatePath = pathJoin t (''.env.'' @ n @ ''.template'')"
  shows "\<not> pathExists outPath fs \<and> pathExists templatePath fs \<and>
         (isDirectory templatePath fs \<or>
          (\<exists>c. readFile templatePath fs = Inr c \<and> isl (writeFile outPath c fs)))"
  using assms
  by (auto simp: ensureEnvFile_def Let_def copyFile_def readFile_def isDirectory_def pathExists_def
      split: if_splits sum.splits node.splits)

lemma readFile_pathExists: "readFile p fs = Inr c \<Longrightarrow> pathExists p fs"
  by (auto simp: readFile_def pathExists_def split: sum.splits)

lemma ensureEnvFiles_unfold:
  "ensureEnvFiles t d fs =
     (case ensureEnvFile t d ''agent'' fs of
        (Some e, fs1) \<Rightarrow> (Some e, fs1)
      | (None, fs1) \<Rightarrow> ensureEnvFile t d ''client'' fs1)"
  by (auto simp: ensureEnvFiles_def split: prod.splits option.splits)

lemma ensureEnvFiles_keeps:
  assumes "n \<in> {''agent'', ''client''}" and "pathExists (d @ [''.env.'' @ n]) fs"
  shows "stat (d @ [''.env.'' @ n]) (snd (ensureEnvFiles t d fs)) = stat (d @ [''.env.'' @ n]) fs"
proof -
  let ?oa = "d @ [''.env.agent'']" and ?oc = "d @ [''.env.client'']"
  obtain e1 fs1 where s1: "ensureEnvFile t d ''agent'' fs = (e1, fs1)" by (cases "ensureEnvFile t d ''agent'' fs")
  obtain e2 fs2 where s2: "ensureEnvFile t d ''client'' fs1 = (e2, fs2)" by (cases "ensureEnvFile t d ''client'' fs1")
  note c1 = ensureEnvFile_cases [OF s1 refl refl, unfolded pathJoin_env]
  note c2 = ensureEnvFile_cases [OF s2 refl refl, unfolded pathJoin_env]
  have snd_cases: "snd (ensureEnvFiles t d fs) = fs1 \<or> snd (ensureEnvFiles t d fs) = fs2"
    using s1 s2 by (cases e1) (simp_all add: ensureEnvFiles_unfold)
  have inc: "\<not> prefix ?oa ?oc" "\<not> prefix ?oc ?oa" by simp_all
  from assms(1) consider "n = ''agent''" | "n = ''client''" by blast
  then show ?thesis
  proof cases
    case 1
    with assms(2) c1 have "fs1 = fs" by auto
    moreover have "stat ?oa fs2 = stat ?oa fs1"
      using c2 inc by (auto simp: stat_writeFile_other)
    ultimately show ?thesis using snd_cases 1 by auto
  next
    case 2
    have a: "stat ?oc fs1 = stat ?oc fs"
      using c1 inc by (auto simp: stat_writeFile_other)
    with assms(2) 2 have "pathExists ?oc fs1" by (simp add: pathExists_def)
    with c2 have "fs2 = fs1" by auto
    with a show ?thesis using snd_cases 2 by auto
  qed
qed

lemma ensureEnvFile_succeeds:
  assumes dir: "isDirectory d fs"
    and ok: "pathExists (d @ [x]) fs \<or> \<not> isDirectory tp fs"
    and s: "ensureEnvFile t d n fs = (e, fs')"
    and o: "pathJoin d (''.env.'' @ n) = d @ [x]"
    and tp: "pathJoin t (''.env.'' @ n @ ''.template'') = tp"
  shows "e = None"
proof (cases e)
  case (Some err)
  from ensureEnvFile_fails [OF s [unfolded Some] refl refl, unfolded o tp] ok
  obtain c' where "\<not> pathExists (d @ [x]) fs" "isl (writeFile (d @ [x]) c' fs)" by blast
  with writeFile_new [OF dir, of x c'] show ?thesis by auto
qed simp

lemma ensureEnvFiles_succeeds:
  assumes dir: "isDirectory d fs"
    and a: "pathExists (d @ [''.env.agent'']) fs \<or> \<not> isDirectory (t @ [''.env.agent.template'']) fs"
    and c: "pathExists (d @ [''.env.client'']) fs \<or> \<not> isDirectory (t @ [''.env.client.template'']) fs"
  shows "fst (ensureEnvFiles t d fs) = None"
proof -
  let ?oa = "d @ [''.env.agent'']" and ?oc = "d @ [''.env.client'']"
  let ?ta = "t @ [''.env.agent.template'']" and ?tc = "t @ [''.env.client.template'']"
  obtain e1 fs1 where s1: "ensureEnvFile t d ''agent'' fs = (e1, fs1)" by (cases "ensureEnvFile t d ''agent'' fs")
  obtain e2 fs2 where s2: "ensureEnvFile t d ''client'' fs1 = (e2, fs2)" by (cases "ensureEnvFile t d ''client'' fs1")
  note c1 = ensureEnvFile_cases [OF s1 refl refl, unfolded pathJoin_env]
  have e1: "e1 = None"
    by (rule ensureEnvFile_succeeds [OF dir a s1 pathJoin_env(1) pathJoin_env(3)])
  have dir1: "isDirectory d fs1"
    and c': "pathExists ?oc fs1 \<or> \<not> isDirectory ?tc fs1"
    using c1 dir c by (auto simp: isDirectory_writeFile pathExists_writeFile)
  have e2: "e2 = None"
    by (rule ensureEnvFile_succeeds [OF dir1 c' s2 pathJoin_env(2) pathJoin_env(4)])
  show ?thesis using s1 s2 e1 e2 by (simp add: ensureEnvFiles_unfold)
qed

lemma ensureEnvFiles_creates_agent:
  assumes dir: "isDirectory d fs"
    and no: "\<not> pathExists (d @ [''.env.agent'']) fs"
    and rd: "readFile (t @ [''.env.agent.template'']) fs = Inr c"
  shows "readFile (d @ [''.env.agent'']) (snd (ensureEnvFiles t d fs)) = Inr c"
proof -
  let ?oa = "d @ [''.env.agent'']" and ?oc = "d @ [''.env.client'']"
  obtain e1 fs1 where s1: "ensureEnvFile t d ''agent'' fs = (e1, fs1)" by (cases "ensureEnvFile t d ''agent'' fs")
  obtain e2 fs2 where s2: "ensureEnvFile t d ''client'' fs1 = (e2, fs2)" by (cases "ensureEnvFile t d ''client'' fs1")
  note c1 = ensureEnvFile_cases [OF s1 refl refl, unfolded pathJoin_env]
  note c2 = ensureEnvFile_cases [OF s2 refl refl, unfolded pathJoin_env]
  from rd have nd: "\<not> isDirectory (t @ [''.env.agent.template'']) fs"
    by (auto simp: readFile_def isDirectory_def split: sum.splits node.splits)
  have e1: "e1 = None"
    by (rule ensureEnvFile_succeeds [OF dir disjI2 [OF nd] s1 pathJoin_env(1) pathJoin_env(3)])
  with no rd c1 have w: "writeFile ?oa c fs = Inr fs1"
    by (auto dest: readFile_pathExists)
  then have r1: "readFile ?oa fs1 = Inr c" by (rule readFile_writeFile_same)
  have "(readFile ?oa fs2 = Inr c) = (readFile ?oa fs1 = Inr c)"
    using c2 by (auto simp: readFile_writeFile_other)
  with r1 have r2: "readFile ?oa fs2 = Inr c" by simp
  have "snd (ensureEnvFiles t d fs) = fs2"
    using s1 s2 e1 by (simp add: ensureEnvFiles_unfold split: option.splits)
  with r2 show ?thesis by simp
qed

lemma ensureEnvFiles_creates_client:
  assumes dir: "isDirectory d fs"
    and a: "pathExists (d @ [''.env.agent'']) fs \<or> \<not> isDirectory (t @ [''.env.agent.template'']) fs"
    and no: "\<not> pathExists (d @ [''.env.client'']) fs"
    and rd: "readFile (t @ [''.env.client.template'']) fs = Inr c"
  shows "readFile (d @ [''.env.client'']) (snd (ensureEnvFiles t d fs)) = Inr c"
proof -
  let ?oa = "d @ [''.env.agent'']" and ?oc = "d @ [''.env.client'']"
  let ?tc = "t @ [''.env.client.template'']"
  obtain e1 fs1 where s1: "ensureEnvFile t d ''agent'' fs = (e1, fs1)" by (cases "ensureEnvFile t d ''agent'' fs")
  obtain e2 fs2 where s2: "ensureEnvFile t d ''client'' fs1 = (e2, fs2)" by (cases "ensureEnvFile t d ''client'' fs1")
  note c1 = ensureEnvFile_cases [OF s1 refl refl, unfolded pathJoin_env]
  note c2 = ensureEnvFile_cases [OF s2 refl refl, unfolded pathJoin_env]
  have e1: "e1 = None"
    by (rule ensureEnvFile_succeeds [OF dir a s1 pathJoin_env(1) pathJoin_env(3)])
  have dir1: "isDirectory d fs1" using c1 dir by (auto simp: isDirectory_writeFile)
  have no1: "\<not> pathExists ?oc fs1" using c1 no by (auto simp: pathExists_writeFile)
  have rd1: "readFile ?tc fs1 = Inr c"
    using c1 rd by (auto simp: readFile_writeFile_other)
  then have nd: "\<not> isDirectory ?tc fs1"
    by (auto simp: readFile_def isDirectory_def split: sum.splits node.splits)
  have e2: "e2 = None"
    by (rule ensureEnvFile_succeeds [OF dir1 disjI2 [OF nd] s2 pathJoin_env(2) pathJoin_env(4)])
  with no1 rd1 c2 have "writeFile ?oc c fs1 = Inr fs2"
    by (auto dest: readFile_pathExists)
  then have "readFile ?oc fs2 = Inr c" by (rule readFile_writeFile_same)
  moreover have "snd (ensureEnvFiles t d fs) = fs2"
    using s1 s2 e1 by (simp add: ensureEnvFiles_unfold)
  ultimately show ?thesis by simp
qed

text \<open>
  C7, as stated, fails: a missing \<open>.env.<name>\<close> whose template exists at the source
  is not always created. When \<open>.env.agent.template\<close> is a directory and the target has
  no \<open>.env.agent\<close>, the copy of the first round throws, the loop ends, and
  \<open>.env.client\<close> is not created although \<open>.env.client.template\<close> is a file of the
  source; and when the target directory does not exist, the copy throws and nothing is
  created.
\<close>

theorem ensureEnvFiles_nondestructive_verbatim_counterexample:
  "\<not> pathExists [''out'', ''.env.client''] fsEnvTemplateDir \<and>
   readFile [''tpl'', ''.env.client.template''] fsEnvTemplateDir = Inr ''client=1'' \<and>
   pathExists [''tpl'', ''.env.client.template''] fsEnvTemplateDir \<and>
   ensureEnvFiles [''tpl''] [''out''] fsEnvTemplateDir = (Some (SystemError EISDIR), fsEnvTemplateDir) \<and>
   \<not> pathExists [''out'', ''.env.client'']
       (snd (ensureEnvFiles [''tpl''] [''out''] fsEnvTemplateDir)) \<and>
   \<not> pathExists [''missing'', ''.env.client''] fsEnvExample \<and>
   readFile [''tpl'', ''.env.client.template''] fsEnvExample = Inr ''client=__PROJECT_NAME__'' \<and>
   ensureEnvFiles [''tpl''] [''missing''] fsEnvExample = (Some (SystemError ENOENT), fsEnvExample) \<and>
   \<not> pathExists [''missing'', ''.env.client'']
       (snd (ensureEnvFiles [''tpl''] [''missing''] fsEnvExample))"
  by code_simp

text \<open>
  C7 (amended): for each of the names \<open>agent\<close> and \<open>client\<close>: an \<open>.env.<name>\<close> that
  exists at the target is, after \<open>ensureEnvFiles\<close>, what it was, whatever the source
  holds and whether the call fails or not. When \<open>.env.<name>\<close> does not exist at the
  target and \<open>.env.<name>.template\<close> is a file of the source, then, provided the target
  is a directory and, for \<open>client\<close>, the round for \<open>agent\<close> does not throw (the target
  has an \<open>.env.agent\<close>, or \<open>.env.agent.template\<close> is not a directory), \<open>.env.<name>\<close>
  holds afterwards exactly the template's text, placeholders included. The call succeeds
  when the target is a directory and, for each name, the target has the env file or the
  template path is not a directory.
\<close>

theorem ensureEnvFiles_nondestructive_verbatim:
  "n \<in> {''agent'', ''client''} \<Longrightarrow>
   (pathExists (d @ [''.env.'' @ n]) fs \<longrightarrow>
      stat (d @ [''.env.'' @ n]) (snd (ensureEnvFiles t d fs)) = stat (d @ [''.env.'' @ n]) fs) \<and>
   (isDirectory d fs \<and> \<not> pathExists (d @ [''.env.'' @ n]) fs \<and>
    readFile (t @ [''.env.'' @ n @ ''.template'']) fs = Inr c \<and>
    (n = ''client'' \<longrightarrow>
       pathExists (d @ [''.env.agent'']) fs \<or> \<not> isDirectory (t @ [''.env.agent.template'']) fs) \<longrightarrow>
      readFile (d @ [''.env.'' @ n]) (snd (ensureEnvFiles t d fs)) = Inr c) \<and>
   (isDirectory d fs \<and>
    (pathExists (d @ [''.env.agent'']) fs \<or> \<not> isDirectory (t @ [''.env.agent.template'']) fs) \<and>
    (pathExists (d @ [''.env.client'']) fs \<or> \<not> isDirectory (t @ [''.env.client.template'']) fs) \<longrightarrow>
      fst (ensureEnvFiles t d fs) = None)"
proof (intro conjI impI)
  assume "n \<in> {''agent'', ''client''}" and "pathExists (d @ [''.env.'' @ n]) fs"
  then show "stat (d @ [''.env.'' @ n]) (snd (ensureEnvFiles t d fs)) = stat (d @ [''.env.'' @ n]) fs"
    by (rule ensureEnvFiles_keeps)
next
  assume n: "n \<in> {''agent'', ''client''}"
    and h: "isDirectory d fs \<and> \<not> pathExists (d @ [''.env.'' @ n]) fs \<and>
      readFile (t @ [''.env.'' @ n @ ''.template'']) fs = Inr c \<and>
      (n = ''client'' \<longrightarrow>
         pathExists (d @ [''.env.agent'']) fs \<or> \<not> isDirectory (t @ [''.env.agent.template'']) fs)"
  from n consider "n = ''agent''" | "n = ''client''" by blast
  then show "readFile (d @ [''.env.'' @ n]) (snd (ensureEnvFiles t d fs)) = Inr c"
  proof cases
    case 1
    with h show ?thesis by (simp add: ensureEnvFiles_creates_agent)
  next
    case 2
    with h show ?thesis by (simp add: ensureEnvFiles_creates_client)
  qed
next
  assume "isDirectory d fs \<and>
    (pathExists (d @ [''.env.agent'']) fs \<or> \<not> isDirectory (t @ [''.env.agent.template'']) fs) \<and>
    (pathExists (d @ [''.env.client'']) fs \<or> \<not> isDirectory (t @ [''.env.client.template'']) fs)"
  then show "fst (ensureEnvFiles t d fs) = None"
    by (simp add: ensureEnvFiles_succeeds)
qed

theorem ensureEnvFiles_nondestructive_verbatim_witness:
  "pathExists [''out'', ''.env.agent''] fsEnvExample \<and>
   readFile [''out'', ''.env.agent''] (snd (ensureEnvFiles [''tpl''] [''out''] fsEnvExample))
     = Inr ''existing=keep'' \<and>
   isDirectory [''out''] fsEnvExample \<and>
   \<not> isDirectory [''tpl'', ''.env.client.template''] fsEnvExample \<and>
   \<not> pathExists [''out'', ''.env.client''] fsEnvExample \<and>
   readFile [''tpl'', ''.env.client.template''] fsEnvExample = Inr ''client=__PROJECT_NAME__'' \<and>
   fst (ensureEnvFiles [''tpl''] [''out''] fsEnvExample) = None \<and>
   readFile [''out'', ''.env.client''] (snd (ensureEnvFiles [''tpl''] [''out''] fsEnvExample))
     = Inr ''client=__PROJECT_NAME__''"
proof -
  have "pathExists [''out'', ''.env.agent''] fsEnvExample \<and>
        isDirectory [''out''] fsEnvExample \<and>
        \<not> isDirectory [''tpl'', ''.env.client.template''] fsEnvExample \<and>
        \<not> pathExists [''out'', ''.env.client''] fsEnvExample \<and>
        readFile [''tpl'', ''.env.client.template''] fsEnvExample = Inr ''client=__PROJECT_NAME__'' \<and>
        stat [''out'', ''.env.agent''] fsEnvExample = Inr (File ''existing=keep'')"
    by code_simp
  then show ?thesis
    using
      ensureEnvFiles_nondestructive_verbatim [of "''agent''" "[''out'']" fsEnvExample "[''tpl'']"]
      ensureEnvFiles_nondestructive_verbatim [of "''client''" "[''out'']" fsEnvExample "[''tpl'']"
        "''client=__PROJECT_NAME__''"]
    by (simp add: readFile_def)
qed

section \<open>Properties of project generation\<close>

lemma getSubstitution_plainValue:
  "plainValue v \<Longrightarrow> getSubstitution m b a v = getSubstitution [] [] [] v"
  by (induction m b a v rule: getSubstitution.induct) auto

lemma getSubstitution_plain: "CHR ''$'' \<notin> set v \<Longrightarrow> getSubstitution m b a v = v"
  by (induction m b a v rule: getSubstitution.induct) auto

lemma beginsWithEndOf_iff:
  "beginsWithEndOf a b = (\<exists>x. x \<noteq> [] \<and> prefix x a \<and> suffix x b)"
  by (auto simp: beginsWithEndOf_def in_set_prefixes)

text \<open>
  A text \<open>ins\<close> that is put in at every occurrence of another pattern brings no
  beginning of \<open>p\<close> that is not in the text already, when it neither begins with an end
  of \<open>p\<close> nor is part of \<open>p\<close>.
\<close>

lemma replaceAllFrom_prefix:
  assumes ins: "\<And>m b a. getSubstitution m b a v = ins" and pat: "pattern \<noteq> []"
  shows "\<not> beginsWithEndOf ins p \<Longrightarrow> \<not> sublist ins p \<Longrightarrow>
         prefix p (replaceAllFrom b pattern v s) \<Longrightarrow> prefix p s"
proof (induction s arbitrary: b p)
  case Nil
  with pat show ?case by simp
next
  case (Cons c cs)
  show ?case
  proof (cases "prefix pattern (c # cs)")
    case True
    let ?rest = "replaceAllFrom (b @ pattern) pattern v (drop (length pattern) (c # cs))"
    from True pat have "replaceAllFrom b pattern v (c # cs) = ins @ ?rest"
      by (simp add: ins)
    with Cons.prems(3) have "prefix p (ins @ ?rest)" by simp
    then consider "prefix p ins" | z where "p = ins @ z"
      by (auto simp: prefix_append)
    then have "p = []"
    proof cases
      case 1
      with Cons.prems(1) show ?thesis by (auto simp: beginsWithEndOf_iff)
    next
      case 2
      with Cons.prems(2) show ?thesis by (simp add: sublist_append)
    qed
    then show ?thesis by simp
  next
    case False
    with pat have eq: "replaceAllFrom b pattern v (c # cs)
        = c # replaceAllFrom (b @ [c]) pattern v cs"
      by simp
    show ?thesis
    proof (cases p)
      case Nil
      then show ?thesis by simp
    next
      case (Cons x p')
      with eq Cons.prems(3) have x: "x = c" and pre: "prefix p' (replaceAllFrom (b @ [c]) pattern v cs)"
        by simp_all
      from Cons.prems(1) Cons have 1: "\<not> beginsWithEndOf ins p'"
        by (auto simp: beginsWithEndOf_iff suffix_Cons)
      from Cons.prems(2) Cons have 2: "\<not> sublist ins p'"
        by (auto simp: sublist_Cons_right)
      from Cons.IH [OF 1 2 pre] x Cons show ?thesis by simp
    qed
  qed
qed

text \<open>
  For the pattern itself less is needed: the text put in may begin with an end \<open>x\<close> of
  the pattern when the rest of the pattern, standing before an occurrence, makes the
  search find an occurrence earlier.
\<close>

lemma replaceAllFrom_prefix_self:
  assumes ins: "\<And>m b a. getSubstitution m b a v = ins" and pat: "pattern \<noteq> []"
    and part: "\<not> sublist ins pattern"
    and ends: "\<And>x. x \<noteq> [] \<Longrightarrow> prefix x ins \<Longrightarrow> suffix x pattern \<Longrightarrow>
                 foundBefore (take (length pattern - length x) pattern) pattern"
  shows "pattern = a @ p \<Longrightarrow> \<forall>j<length a. \<not> prefix pattern (drop j (a @ s)) \<Longrightarrow>
         prefix p (replaceAllFrom b pattern v s) \<Longrightarrow> prefix p s"
proof (induction s arbitrary: a p b)
  case Nil
  with pat show ?case by (auto split: if_splits)
next
  case (Cons c cs)
  show ?case
  proof (cases "p = []")
    case True
    then show ?thesis by simp
  next
    case pne: False
    show ?thesis
    proof (cases "prefix pattern (c # cs)")
      case True
      let ?rest = "replaceAllFrom (b @ pattern) pattern v (drop (length pattern) (c # cs))"
      from True pat have "replaceAllFrom b pattern v (c # cs) = ins @ ?rest"
        by (simp add: ins)
      with Cons.prems(3) have "prefix p (ins @ ?rest)" by simp
      then consider "prefix p ins" | z where "p = ins @ z"
        by (auto simp: prefix_append)
      then have False
      proof cases
        case 1
        from Cons.prems(1) have "suffix p pattern" by (simp add: suffix_def)
        from ends [OF pne 1 this] Cons.prems(1)
        have "foundBefore a pattern" by simp
        then obtain j where j: "j < length a" "prefix pattern (drop j (a @ pattern))"
          by (auto simp: foundBefore_def)
        from True obtain w where w: "c # cs = pattern @ w" by (auto simp: prefix_def)
        from j(1) have "drop j (a @ c # cs) = drop j (a @ pattern) @ w"
          by (simp add: w)
        with j(2) have "prefix pattern (drop j (a @ c # cs))"
          by (metis prefix_prefix)
        with Cons.prems(2) j(1) show False by blast
      next
        case 2
        with Cons.prems(1) have "sublist ins pattern"
          by (metis sublist_appendI sublist_order.order.trans sublist_append_rightI)
        with part show False by simp
      qed
      then show ?thesis ..
    next
      case False
      with pat have eq: "replaceAllFrom b pattern v (c # cs)
          = c # replaceAllFrom (b @ [c]) pattern v cs"
        by simp
      from pne obtain x p' where p: "p = x # p'" by (cases p) auto
      with eq Cons.prems(3) have x: "x = c" and pre: "prefix p' (replaceAllFrom (b @ [c]) pattern v cs)"
        by simp_all
      from Cons.prems(1) p x have 1: "pattern = (a @ [c]) @ p'" by simp
      have 2: "\<forall>j<length (a @ [c]). \<not> prefix pattern (drop j ((a @ [c]) @ cs))"
      proof (intro allI impI)
        fix j assume "j < length (a @ [c])"
        then consider "j < length a" | "j = length a" by force
        then show "\<not> prefix pattern (drop j ((a @ [c]) @ cs))"
        proof cases
          case 1
          with Cons.prems(2) show ?thesis by simp
        next
          case 2
          with False show ?thesis by simp
        qed
      qed
      from Cons.IH [OF 1 2 pre] p x show ?thesis by simp
    qed
  qed
qed

lemma sublist_drop: "sublist p (drop n s) \<Longrightarrow> sublist p s"
  by (metis append_take_drop_id sublist_append)

text \<open>
  Replacing every occurrence of a pattern leaves no \<open>p\<close>, when \<open>p\<close> is the pattern or
  was not in the text, the text put in neither holds \<open>p\<close> nor ends with a beginning of
  it, and no beginning of \<open>p\<close> is made that the text did not have.
\<close>

lemma replaceAllFrom_no_occurrence:
  "\<forall>m b a. getSubstitution m b a v = ins \<Longrightarrow>
   \<forall>b s. prefix p (replaceAllFrom b pattern v s) \<longrightarrow> prefix p s \<Longrightarrow>
   \<not> beginsWithEndOf p ins \<Longrightarrow> \<not> sublist p ins \<Longrightarrow>
   pattern \<noteq> [] \<Longrightarrow> p = pattern \<or> \<not> sublist p s \<Longrightarrow>
   \<not> sublist p (replaceAllFrom b pattern v s)"
proof (induction b pattern v s rule: replaceAllFrom.induct)
  case (1 preceding pattern v)
  then show ?case by auto
next
  case (2 preceding pattern v c cs)
  note ins = "2.prems"(1) and pp = "2.prems"(2) and c2 = "2.prems"(3) and c4 = "2.prems"(4)
    and pat = "2.prems"(5)
  show ?case
  proof (cases "prefix pattern (c # cs)")
    case True
    let ?rest = "replaceAllFrom (preceding @ pattern) pattern v (drop (length pattern) (c # cs))"
    from True pat ins have eq: "replaceAllFrom preceding pattern v (c # cs) = ins @ ?rest"
      by simp
    have "p = pattern \<or> \<not> sublist p (drop (length pattern) (c # cs))"
      using "2.prems"(6) sublist_drop by blast
    with "2.IH"(2) pat True ins pp c2 c4 have rest: "\<not> sublist p ?rest" by simp
    show ?thesis
    proof
      assume "sublist p (replaceAllFrom preceding pattern v (c # cs))"
      with eq have "sublist p (ins @ ?rest)" by simp
      with c4 rest obtain p1 p2 where p12: "p = p1 @ p2" "suffix p1 ins" "prefix p2 ?rest"
        by (auto simp: sublist_append)
      show False
      proof (cases "p1 = []")
        case True
        with p12 rest show False by auto
      next
        case False
        with p12(1,2) have "beginsWithEndOf p ins"
          by (auto simp: beginsWithEndOf_iff)
        with c2 show False by simp
      qed
    qed
  next
    case False
    with pat have eq: "replaceAllFrom preceding pattern v (c # cs)
        = c # replaceAllFrom (preceding @ [c]) pattern v cs"
      by simp
    have "p = pattern \<or> \<not> sublist p cs" using "2.prems"(6) by (auto simp: sublist_Cons_right)
    with "2.IH"(3) pat False ins pp c2 c4
    have rest: "\<not> sublist p (replaceAllFrom (preceding @ [c]) pattern v cs)" by simp
    show ?thesis
    proof
      assume "sublist p (replaceAllFrom preceding pattern v (c # cs))"
      with eq rest have "prefix p (replaceAllFrom preceding pattern v (c # cs))"
        by (simp add: sublist_Cons_right)
      with pp have pre: "prefix p (c # cs)" by blast
      with "2.prems"(6) False show False by auto
    qed
  qed
qed

text \<open>One round of the loop of \<open>substituteInFile\<close>, for the pattern itself and for another token.\<close>

lemma substitute_step_self:
  assumes ins: "\<forall>m b a. getSubstitution m b a v = ins" and cf: "\<not> canFormToken t ins"
    and t: "t \<noteq> []"
  shows "\<not> sublist t (if sublist t s then replaceAll t v s else s)"
proof (cases "sublist t s")
  case True
  from cf have c: "\<not> sublist t ins" "\<not> sublist ins t" "\<not> beginsWithEndOf t ins"
    and ends: "\<And>x. x \<noteq> [] \<Longrightarrow> prefix x ins \<Longrightarrow> suffix x t \<Longrightarrow>
                 foundBefore (take (length t - length x) t) t"
    by (auto simp: canFormToken_def in_set_prefixes)
  have pp: "\<forall>b s. prefix t (replaceAllFrom b t v s) \<longrightarrow> prefix t s"
  proof (intro allI impI)
    fix b s assume "prefix t (replaceAllFrom b t v s)"
    from replaceAllFrom_prefix_self [OF _ t c(2) ends, of v "[]" t s b] ins this
    show "prefix t s" by simp
  qed
  from ins pp c(3) c(1) t have "\<not> sublist t (replaceAll t v s)"
    unfolding replaceAll_def by (intro replaceAllFrom_no_occurrence) simp_all
  with True show ?thesis by simp
next
  case False
  then show ?thesis by simp
qed

lemma substitute_step_other:
  assumes ins: "\<forall>m b a. getSubstitution m b a v = ins"
    and c: "\<not> beginsWithEndOf ins p" "\<not> beginsWithEndOf p ins" "\<not> sublist ins p" "\<not> sublist p ins"
    and t: "t \<noteq> []" and s: "\<not> sublist p s"
  shows "\<not> sublist p (if sublist t s then replaceAll t v s else s)"
proof (cases "sublist t s")
  case True
  have pp: "\<forall>b s. prefix p (replaceAllFrom b t v s) \<longrightarrow> prefix p s"
  proof (intro allI impI)
    fix b s assume "prefix p (replaceAllFrom b t v s)"
    from replaceAllFrom_prefix [OF _ t c(1) c(3) this] ins show "prefix p s" by simp
  qed
  from ins pp c(2) c(4) t s have "\<not> sublist p (replaceAll t v s)"
    unfolding replaceAll_def by (intro replaceAllFrom_no_occurrence) simp_all
  with True show ?thesis by simp
next
  case False
  with s show ?thesis by simp
qed

text \<open>The characters of the sanitized names.\<close>

lemma set_stripFirst: "set (stripFirst p s) \<subseteq> set s"
  by (cases s) auto

lemma set_stripEnds: "set (stripEnds x s) \<subseteq> set s"
  using set_stripFirst [of "\<lambda>c. c = x" s]
  by (auto simp: stripEnds_def Let_def dest: in_set_butlastD)

lemma set_replaceRuns: "set (replaceRuns p r s) \<subseteq> set s \<union> set r"
proof (induction p r s rule: replaceRuns.induct)
  case (1 p r)
  then show ?case by simp
next
  case (2 p r c cs)
  then show ?case by (auto dest: set_dropWhileD)
qed

lemma set_replaceEach_remove: "set (replaceEach p [] s) = {c \<in> set s. \<not> p c}"
  by (induction s) (auto simp: replaceEach_def)

lemma toPackageName_chars:
  assumes "c \<in> set (toPackageName n)"
  shows "isLower c \<or> isDigit c \<or> c = CHR ''-'' \<or> c = CHR ''@'' \<or> c = CHR ''/''"
proof -
  let ?s = "replaceEach (\<lambda>c. c = CHR ''_'') ''-'' (replaceRuns isSpace ''-'' (toLowerCase n))"
  let ?ok = "\<lambda>c. isLower c \<or> isDigit c \<or> c = CHR ''-'' \<or> c = CHR ''@'' \<or> c = CHR ''/''"
  from assms have "c \<in> set (replaceRuns (\<lambda>c. c = CHR ''-'') ''-''
         (stripFirst (\<lambda>c. \<not> (isLower c \<or> c = CHR ''@'')) (replaceEach (\<lambda>c. \<not> ?ok c) [] ?s)))"
    unfolding toPackageName_def using set_stripEnds by fastforce
  then have "c = CHR ''-'' \<or> c \<in> set (replaceEach (\<lambda>c. \<not> ?ok c) [] ?s)"
    using set_replaceRuns set_stripFirst by fastforce
  then show ?thesis by (auto simp: set_replaceEach_remove)
qed

lemma toPythonPackage_chars:
  assumes "c \<in> set (toPythonPackage n)"
  shows "isLower c \<or> isDigit c \<or> c = CHR ''_''"
proof -
  let ?s = "replaceEach (\<lambda>c. c = CHR ''-'') ''_'' (replaceRuns isSpace ''_'' (toLowerCase n))"
  let ?ok = "\<lambda>c. isLower c \<or> isDigit c \<or> c = CHR ''_''"
  from assms have "c \<in> set (replaceRuns (\<lambda>c. c = CHR ''_'') ''_''
         (stripFirst (\<lambda>c. \<not> isLower c) (replaceEach (\<lambda>c. \<not> ?ok c) [] ?s)))"
    unfolding toPythonPackage_def using set_stripEnds by fastforce
  then have "c = CHR ''_'' \<or> c \<in> set (replaceEach (\<lambda>c. \<not> ?ok c) [] ?s)"
    using set_replaceRuns set_stripFirst by fastforce
  then show ?thesis by (auto simp: set_replaceEach_remove)
qed

text \<open>After \<open>/x+/g\<close> no two \<open>x\<close> are adjacent, so \<open>/^x|x$/g\<close> leaves none at either end.\<close>

lemma replaceRuns_hd:
  "replaceRuns (\<lambda>c. c = x) [x] s \<noteq> [] \<Longrightarrow> hd (replaceRuns (\<lambda>c. c = x) [x] s) = hd s"
  by (cases s) auto

lemma replaceRuns_single:
  "\<not> sublist [x, x] (replaceRuns (\<lambda>c. c = x) [x] s)"
proof (induction "\<lambda>c. c = x" "[x]" s rule: replaceRuns.induct)
  case 1
  then show ?case by simp
next
  case (2 c cs)
  show ?case
  proof (cases "c = x")
    case True
    let ?d = "dropWhile (\<lambda>c. c = x) cs"
    have "\<not> prefix [x] (replaceRuns (\<lambda>c. c = x) [x] ?d)"
    proof (cases "?d = []")
      case True
      have "replaceRuns (\<lambda>c. c = x) [x] ?d = []" unfolding True by simp
      then show ?thesis by (simp only: prefix_Nil) simp
    next
      case False
      then have "hd ?d \<noteq> x" using hd_dropWhile [of "\<lambda>c. c = x" cs] by blast
      moreover from False have "hd (replaceRuns (\<lambda>c. c = x) [x] ?d) = hd ?d"
        by (cases ?d) (simp_all only: replaceRuns.simps list.sel if_False, auto)
      ultimately show ?thesis by (auto simp: prefix_def)
    qed
    with 2(1) True show ?thesis by (auto simp: sublist_Cons_right)
  next
    case False
    with 2(2) show ?thesis by (auto simp: sublist_Cons_right)
  qed
qed

lemma stripEnds_ends:
  assumes "\<not> sublist [x, x] s" and "stripEnds x s \<noteq> []"
  shows "hd (stripEnds x s) \<noteq> x \<and> last (stripEnds x s) \<noteq> x"
proof -
  let ?s1 = "stripFirst (\<lambda>c. c = x) s"
  have s1: "\<not> sublist [x, x] ?s1" using assms(1) by (cases s) (auto simp: sublist_Cons_right)
  have h1: "?s1 \<noteq> [] \<Longrightarrow> hd ?s1 \<noteq> x"
  proof (cases s)
    case Nil
    then show "?s1 \<noteq> [] \<Longrightarrow> hd ?s1 \<noteq> x" by simp
  next
    case (Cons c cs)
    assume ne: "?s1 \<noteq> []"
    show "hd ?s1 \<noteq> x"
    proof (cases "c = x")
      case True
      with Cons ne obtain d ds where cs: "cs = d # ds" by (cases cs) auto
      with assms(1) Cons True have "d \<noteq> x" by (auto simp: sublist_Cons_right)
      with Cons True cs show ?thesis by simp
    next
      case False
      with Cons show ?thesis by simp
    qed
  qed
  show ?thesis
  proof (cases "?s1 \<noteq> [] \<and> last ?s1 = x")
    case False
    with assms(2) h1 show ?thesis by (auto simp: stripEnds_def Let_def)
  next
    case True
    then have eq: "stripEnds x s = butlast ?s1" by (simp add: stripEnds_def Let_def)
    with assms(2) have ne: "butlast ?s1 \<noteq> []" by simp
    from True obtain ys where ys: "?s1 = ys @ [x]" by (metis append_butlast_last_id)
    with ne have ysne: "ys \<noteq> []" by simp
    then have "last ys \<noteq> x"
    proof -
      from ysne obtain zs z where "ys = zs @ [z]" by (metis append_butlast_last_id)
      with ys s1 have "\<not> sublist [x, x] (zs @ [z, x])" by simp
      then have "z \<noteq> x" by (auto simp: sublist_def)
      with \<open>ys = zs @ [z]\<close> show ?thesis by simp
    qed
    moreover have "hd ys \<noteq> x" using h1 ys ysne by (cases ys) auto
    ultimately show ?thesis using eq ys by simp
  qed
qed

lemma toPythonPackage_ends:
  assumes "toPythonPackage n \<noteq> []"
  shows "hd (toPythonPackage n) \<noteq> CHR ''_'' \<and> last (toPythonPackage n) \<noteq> CHR ''_''"
  using assms unfolding toPythonPackage_def
  by (intro stripEnds_ends replaceRuns_single)

lemma placeholder_chars:
  assumes "p \<in> set PLACEHOLDERS" and "c \<in> set p"
  shows "c = CHR ''_'' \<or> (65 \<le> code c \<and> code c \<le> 90)"
  using assms
  by (auto simp: PLACEHOLDERS_def PROJECT_NAME_def PACKAGE_NAME_def PY_PACKAGE_def code_def)

lemma placeholder_capital:
  assumes "p \<in> set PLACEHOLDERS"
  shows "CHR ''P'' \<in> set p"
  using assms
  by (auto simp: PLACEHOLDERS_def PROJECT_NAME_def PACKAGE_NAME_def PY_PACKAGE_def)

text \<open>
  A text that is not empty, whose first and last characters are not in \<open>p\<close> and that
  lacks a character of \<open>p\<close>, cannot make up \<open>p\<close> with what stands around it.
\<close>

lemma apart_ends:
  assumes "v \<noteq> []" and "hd v \<notin> set p" and "last v \<notin> set p" and "c \<in> set p" and "c \<notin> set v"
  shows "\<not> beginsWithEndOf v p" and "\<not> beginsWithEndOf p v" and "\<not> sublist v p"
    and "\<not> sublist p v"
proof -
  show "\<not> beginsWithEndOf v p"
  proof
    assume "beginsWithEndOf v p"
    then obtain x where x: "x \<noteq> []" "prefix x v" "suffix x p" by (auto simp: beginsWithEndOf_iff)
    then have "hd x = hd v" by (auto simp: prefix_def)
    moreover from x have "hd x \<in> set p" by (auto simp: suffix_def)
    ultimately show False using assms(2) by simp
  qed
  show "\<not> beginsWithEndOf p v"
  proof
    assume "beginsWithEndOf p v"
    then obtain x where x: "x \<noteq> []" "prefix x p" "suffix x v" by (auto simp: beginsWithEndOf_iff)
    then have "last x = last v" by (auto simp: suffix_def)
    moreover from x have "last x \<in> set p" by (auto simp: prefix_def)
    ultimately show False using assms(3) by simp
  qed
  show "\<not> sublist v p"
  proof
    assume "sublist v p"
    then have "set v \<subseteq> set p" by (rule set_mono_sublist)
    with assms(1,2) show False by (cases v) auto
  qed
  show "\<not> sublist p v"
  proof
    assume "sublist p v"
    then have "set p \<subseteq> set v" by (rule set_mono_sublist)
    with assms(4,5) show False by auto
  qed
qed

lemma apart_canFormToken:
  "\<not> beginsWithEndOf v p \<Longrightarrow> \<not> beginsWithEndOf p v \<Longrightarrow> \<not> sublist v p \<Longrightarrow>
   \<not> sublist p v \<Longrightarrow> \<not> canFormToken p v"
  by (auto simp: canFormToken_def beginsWithEndOf_def)

lemma toPackageName_apart:
  assumes "toPackageName n \<noteq> []" and "p \<in> set PLACEHOLDERS"
  shows "\<not> beginsWithEndOf (toPackageName n) p" and "\<not> beginsWithEndOf p (toPackageName n)"
    and "\<not> sublist (toPackageName n) p" and "\<not> sublist p (toPackageName n)"
proof -
  have out: "c \<notin> set p" if "c \<in> set (toPackageName n)" for c
    using toPackageName_chars [OF that] placeholder_chars [OF assms(2), of c]
    by (auto simp: isLower_def isDigit_def code_def)
  from assms(1) have "hd (toPackageName n) \<in> set (toPackageName n)"
    "last (toPackageName n) \<in> set (toPackageName n)" by simp_all
  with out have e: "hd (toPackageName n) \<notin> set p" "last (toPackageName n) \<notin> set p" by blast+
  from out placeholder_capital [OF assms(2)]
  have P: "CHR ''P'' \<notin> set (toPackageName n)" by blast
  note a = apart_ends [OF assms(1) e placeholder_capital [OF assms(2)] P]
  show "\<not> beginsWithEndOf (toPackageName n) p" by (rule a(1))
  show "\<not> beginsWithEndOf p (toPackageName n)" by (rule a(2))
  show "\<not> sublist (toPackageName n) p" by (rule a(3))
  show "\<not> sublist p (toPackageName n)" by (rule a(4))
qed

lemma toPythonPackage_apart:
  assumes "toPythonPackage n \<noteq> []" and "p \<in> set PLACEHOLDERS"
  shows "\<not> beginsWithEndOf (toPythonPackage n) p" and "\<not> beginsWithEndOf p (toPythonPackage n)"
    and "\<not> sublist (toPythonPackage n) p" and "\<not> sublist p (toPythonPackage n)"
proof -
  have out: "c \<notin> set p" if "c \<in> set (toPythonPackage n)" "c \<noteq> CHR ''_''" for c
    using toPythonPackage_chars [OF that(1)] that(2) placeholder_chars [OF assms(2), of c]
    by (auto simp: isLower_def isDigit_def code_def)
  from assms(1) have "hd (toPythonPackage n) \<in> set (toPythonPackage n)"
    "last (toPythonPackage n) \<in> set (toPythonPackage n)" by simp_all
  with out toPythonPackage_ends [OF assms(1)]
  have e: "hd (toPythonPackage n) \<notin> set p" "last (toPythonPackage n) \<notin> set p" by blast+
  have P: "CHR ''P'' \<notin> set (toPythonPackage n)"
    using toPythonPackage_chars [of "CHR ''P''" n] by (auto simp: isLower_def isDigit_def code_def)
  note a = apart_ends [OF assms(1) e placeholder_capital [OF assms(2)] P]
  show "\<not> beginsWithEndOf (toPythonPackage n) p" by (rule a(1))
  show "\<not> beginsWithEndOf p (toPythonPackage n)" by (rule a(2))
  show "\<not> sublist (toPythonPackage n) p" by (rule a(3))
  show "\<not> sublist p (toPythonPackage n)" by (rule a(4))
qed

lemma toPackageName_plain: "CHR ''$'' \<notin> set (toPackageName n)"
  using toPackageName_chars [of "CHR ''$''" n] by (auto simp: isLower_def isDigit_def code_def)

lemma toPythonPackage_plain: "CHR ''$'' \<notin> set (toPythonPackage n)"
  using toPythonPackage_chars [of "CHR ''$''" n] by (auto simp: isLower_def isDigit_def code_def)

lemma substituteAll_clean:
  assumes "plainValue n" and "\<not> canFormToken PROJECT_NAME (getSubstitution [] [] [] n)"
    and "toPackageName n \<noteq> []" and "toPythonPackage n \<noteq> []"
  shows "\<not> hasPlaceholder (substituteAll (buildSubstitutions n) content)"
proof -
  define c1 where "c1 = (if sublist PROJECT_NAME content then replaceAll PROJECT_NAME n content else content)"
  define c2 where "c2 = (if sublist PACKAGE_NAME c1 then replaceAll PACKAGE_NAME (toPackageName n) c1 else c1)"
  define c3 where "c3 = (if sublist PY_PACKAGE c2 then replaceAll PY_PACKAGE (toPythonPackage n) c2 else c2)"
  have mem: "PROJECT_NAME \<in> set PLACEHOLDERS" "PACKAGE_NAME \<in> set PLACEHOLDERS"
    "PY_PACKAGE \<in> set PLACEHOLDERS"
    by (simp_all add: PLACEHOLDERS_def)
  have ne: "PROJECT_NAME \<noteq> []" "PACKAGE_NAME \<noteq> []" "PY_PACKAGE \<noteq> []"
    by (simp_all add: PROJECT_NAME_def PACKAGE_NAME_def PY_PACKAGE_def)
  have i1: "\<forall>m b a. getSubstitution m b a n = getSubstitution [] [] [] n"
    using assms(1) getSubstitution_plainValue by blast
  have i2: "\<forall>m b a. getSubstitution m b a (toPackageName n) = toPackageName n"
    using getSubstitution_plain [OF toPackageName_plain] by blast
  have i3: "\<forall>m b a. getSubstitution m b a (toPythonPackage n) = toPythonPackage n"
    using getSubstitution_plain [OF toPythonPackage_plain] by blast
  note k2 = toPackageName_apart [OF assms(3)]
  note k3 = toPythonPackage_apart [OF assms(4)]
  have eq: "substituteAll (buildSubstitutions n) content = c3"
    by (simp add: buildSubstitutions_def c1_def c2_def c3_def)
  have a1: "\<not> sublist PROJECT_NAME c1"
    unfolding c1_def by (rule substitute_step_self [OF i1 assms(2) ne(1)])
  have a21: "\<not> sublist PROJECT_NAME c2"
    unfolding c2_def
    by (rule substitute_step_other [OF i2 k2(1) [OF mem(1)] k2(2) [OF mem(1)] k2(3) [OF mem(1)]
          k2(4) [OF mem(1)] ne(2) a1])
  have a22: "\<not> sublist PACKAGE_NAME c2"
    unfolding c2_def
    by (rule substitute_step_self [OF i2 apart_canFormToken [OF k2 [OF mem(2)]] ne(2)])
  have a31: "\<not> sublist PROJECT_NAME c3"
    unfolding c3_def
    by (rule substitute_step_other [OF i3 k3(1) [OF mem(1)] k3(2) [OF mem(1)] k3(3) [OF mem(1)]
          k3(4) [OF mem(1)] ne(3) a21])
  have a32: "\<not> sublist PACKAGE_NAME c3"
    unfolding c3_def
    by (rule substitute_step_other [OF i3 k3(1) [OF mem(2)] k3(2) [OF mem(2)] k3(3) [OF mem(2)]
          k3(4) [OF mem(2)] ne(3) a22])
  have a33: "\<not> sublist PY_PACKAGE c3"
    unfolding c3_def
    by (rule substitute_step_self [OF i3 apart_canFormToken [OF k3 [OF mem(3)]] ne(3)])
  from a31 a32 a33 show ?thesis
    unfolding eq hasPlaceholder_def PLACEHOLDERS_def by simp
qed

text \<open>
  For \<open>__PROJECT_NAME__\<close> the ends that a text put in may begin with are \<open>_\<close> and
  \<open>__\<close>; it may begin with no longer end of the token.
\<close>

lemma foundBefore_PROJECT_NAME_ends:
  "\<forall>x\<in>set (suffixes PROJECT_NAME). x \<noteq> [] \<longrightarrow>
     foundBefore (take (length PROJECT_NAME - length x) PROJECT_NAME) PROJECT_NAME
       = (length x < 3)"
  by code_simp

lemma canFormToken_PROJECT_NAME:
  "canFormToken PROJECT_NAME v =
     (sublist PROJECT_NAME v \<or> sublist v PROJECT_NAME \<or> beginsWithEndOf PROJECT_NAME v \<or>
      (\<exists>x. 3 \<le> length x \<and> prefix x v \<and> suffix x PROJECT_NAME))"
proof -
  have found: "foundBefore (take (length PROJECT_NAME - length x) PROJECT_NAME) PROJECT_NAME
       = (length x < 3)" if "x \<noteq> []" "suffix x PROJECT_NAME" for x
  proof -
    from that(2) have "x \<in> set (suffixes PROJECT_NAME)" by (simp only: in_set_suffixes)
    with foundBefore_PROJECT_NAME_ends that(1) show ?thesis by blast
  qed
  have "(\<exists>x\<in>set (prefixes v). x \<noteq> [] \<and> suffix x PROJECT_NAME \<and>
          \<not> foundBefore (take (length PROJECT_NAME - length x) PROJECT_NAME) PROJECT_NAME)
      = (\<exists>x. 3 \<le> length x \<and> prefix x v \<and> suffix x PROJECT_NAME)"
  proof
    assume "\<exists>x\<in>set (prefixes v). x \<noteq> [] \<and> suffix x PROJECT_NAME \<and>
          \<not> foundBefore (take (length PROJECT_NAME - length x) PROJECT_NAME) PROJECT_NAME"
    then obtain x where x: "prefix x v" "x \<noteq> []" "suffix x PROJECT_NAME"
      "\<not> foundBefore (take (length PROJECT_NAME - length x) PROJECT_NAME) PROJECT_NAME"
      by (auto simp: in_set_prefixes)
    with found [OF x(2,3)] have "3 \<le> length x" by simp
    with x show "\<exists>x. 3 \<le> length x \<and> prefix x v \<and> suffix x PROJECT_NAME" by blast
  next
    assume "\<exists>x. 3 \<le> length x \<and> prefix x v \<and> suffix x PROJECT_NAME"
    then obtain x where x: "3 \<le> length x" "prefix x v" "suffix x PROJECT_NAME" by blast
    then have ne: "x \<noteq> []" by auto
    from found [OF ne x(3)] x(1)
    have "\<not> foundBefore (take (length PROJECT_NAME - length x) PROJECT_NAME) PROJECT_NAME"
      by simp
    with x ne show "\<exists>x\<in>set (prefixes v). x \<noteq> [] \<and> suffix x PROJECT_NAME \<and>
          \<not> foundBefore (take (length PROJECT_NAME - length x) PROJECT_NAME) PROJECT_NAME"
      by (auto simp: in_set_prefixes)
  qed
  then show ?thesis by (simp only: canFormToken_def)
qed

lemma map_of_substituteEntries:
  "map_of (substituteEntries subs es) x =
     map_option
       (\<lambda>n. case n of
               File c \<Rightarrow> File (substituteInFile subs x c)
             | Dir sub \<Rightarrow> if skipDir x then Dir sub else Dir (substituteEntries subs sub))
       (map_of es x)"
  by (induction subs es rule: substituteEntries.induct) (auto simp: skipDir_def)

lemma stat_substituteEntries:
  "stat rel (Dir (substituteEntries subs es)) = Inr (File content) \<Longrightarrow> rel \<noteq> [] \<Longrightarrow>
   \<forall>d\<in>set (butlast rel). \<not> skipDir d \<Longrightarrow>
   \<exists>c0. stat rel (Dir es) = Inr (File c0) \<and> content = substituteInFile subs (last rel) c0"
proof (induction rel arbitrary: es)
  case Nil
  then show ?case by simp
next
  case (Cons x xs)
  show ?case
  proof (cases "map_of es x")
    case None
    with Cons.prems show ?thesis by (simp add: map_of_substituteEntries)
  next
    case (Some n)
    show ?thesis
    proof (cases n)
      case (File c)
      with Some Cons.prems show ?thesis
        by (cases xs) (auto simp: map_of_substituteEntries)
    next
      case (Dir sub)
      show ?thesis
      proof (cases xs)
        case Nil
        with Dir Some Cons.prems show ?thesis
          by (auto simp: map_of_substituteEntries split: if_splits)
      next
        case (Cons y ys)
        with Cons.prems(3) have ns: "\<not> skipDir x" "\<forall>d\<in>set (butlast xs). \<not> skipDir d" by auto
        from Cons.prems(1) Some Dir ns
        have "stat xs (Dir (substituteEntries subs sub)) = Inr (File content)"
          by (simp add: map_of_substituteEntries)
        from Cons.IH [OF this _ ns(2)] Cons Some Dir show ?thesis by auto
      qed
    qed
  qed
qed

lemma stat_replaceAt:
  "pathExists p fs \<Longrightarrow> stat (p @ q) (replaceAt p n fs) = stat q n"
proof (induction p arbitrary: fs)
  case Nil
  then show ?case by simp
next
  case (Cons x xs)
  then show ?case
    by (cases fs) (auto simp: pathExists_def update_conv' split: option.splits)
qed

lemma replaceAllFrom_absent:
  "pattern \<noteq> [] \<Longrightarrow> \<not> sublist pattern s \<Longrightarrow> replaceAllFrom b pattern v s = s"
  by (induction b pattern v s rule: replaceAllFrom.induct) (auto simp: sublist_Cons_right)

lemma replaceAll_absent: "pattern \<noteq> [] \<Longrightarrow> \<not> sublist pattern s \<Longrightarrow> replaceAll pattern v s = s"
  by (simp add: replaceAll_def replaceAllFrom_absent)

lemma substituteAll_Cons:
  "p \<noteq> [] \<Longrightarrow> substituteAll ((p, v) # rest) c = substituteAll rest (replaceAll p v c)"
  by (simp add: replaceAll_absent)

lemma substituteAll_buildSubstitutions:
  "substituteAll (buildSubstitutions n) content =
     replaceAll PY_PACKAGE (toPythonPackage n)
       (replaceAll PACKAGE_NAME (toPackageName n) (replaceAll PROJECT_NAME n content))"
proof -
  have ne: "PROJECT_NAME \<noteq> []" "PACKAGE_NAME \<noteq> []" "PY_PACKAGE \<noteq> []"
    by (simp_all add: PROJECT_NAME_def PACKAGE_NAME_def PY_PACKAGE_def)
  show ?thesis
    unfolding buildSubstitutions_def
    by (simp only: substituteAll_Cons [OF ne(1)] substituteAll_Cons [OF ne(2)]
        substituteAll_Cons [OF ne(3)] substituteAll.simps(1))
qed

lemma substituteInDirectory_file:
  assumes "substituteInDirectory dirPath subs fs = (None, fs')"
    and "readFile (dirPath @ rel) fs' = Inr content"
    and "\<forall>d\<in>set (butlast rel). \<not> skipDir d"
  shows "\<exists>c0. readFile (dirPath @ rel) fs = Inr c0 \<and> content = substituteInFile subs (last rel) c0"
proof -
  from assms(1) obtain es where es: "readdir dirPath fs = Inr es"
    and fs': "fs' = replaceAt dirPath (Dir (substituteEntries subs es)) fs"
    by (auto simp: substituteInDirectory_def split: sum.splits)
  from es have ex: "pathExists dirPath fs" and st: "stat dirPath fs = Inr (Dir es)"
    by (auto simp: readdir_def pathExists_def split: sum.splits node.splits)
  from assms(2) have "stat (dirPath @ rel) fs' = Inr (File content)"
    by (auto simp: readFile_def split: sum.splits node.splits)
  with fs' ex have 1: "stat rel (Dir (substituteEntries subs es)) = Inr (File content)"
    by (simp add: stat_replaceAt)
  then have "rel \<noteq> []" by auto
  from stat_substituteEntries [OF 1 this assms(3)]
  obtain c0 where c0: "stat rel (Dir es) = Inr (File c0)"
    "content = substituteInFile subs (last rel) c0" by blast
  have "stat (dirPath @ rel) fs = stat rel (Dir es)"
    using st
  proof (induction dirPath arbitrary: fs)
    case Nil
    then show ?case by simp
  next
    case (Cons x xs)
    then show ?case by (cases fs) (auto split: option.splits)
  qed
  with c0 show ?thesis by (auto simp: readFile_def)
qed

text \<open>
  C6, as stated, fails: the value put in is not searched again, so for the project
  named \<open>__PROJECT_NAME__\<close> the README of the example still holds the token after
  the substitution step. The same happens for a template text in which a token is left
  once an empty package name is taken out (the project \<open>1\<close>), for a project name with
  the pattern \<open>$&\<close>, which puts the token back, and for a project name that is part of
  the token (\<open>A\<close>), ends with a beginning of it (\<open>my_\<close>) or begins with an end of
  it (\<open>E__x\<close>).
\<close>

theorem substitution_leaves_no_placeholder_counterexample:
  "fst (generateAndSubstitute noParse copyIntoEmpty (optionsFor ''__PROJECT_NAME__'') fsStarters) = None \<and>
   readFile [''work'', ''__PROJECT_NAME__'', ''README.md'']
     (snd (generateAndSubstitute noParse copyIntoEmpty (optionsFor ''__PROJECT_NAME__'') fsStarters))
     = Inr ''# __PROJECT_NAME__ (project_name)'' \<and>
   \<not> isBinaryFile ''README.md'' BINARY_EXTENSIONS \<and>
   sublist ''__PROJECT_NAME__'' ''# __PROJECT_NAME__ (project_name)'' \<and>
   toPackageName ''1'' = [] \<and>
   substituteAll (buildSubstitutions ''1'') ''__PROJECT___PACKAGE_NAME__NAME__''
     = ''__PROJECT_NAME__'' \<and>
   substituteAll (buildSubstitutions ''x$&'') ''__PROJECT_NAME__'' = ''x__PROJECT_NAME__'' \<and>
   substituteAll (buildSubstitutions ''A'') ''__PROJECT_N__PROJECT_NAME__ME__''
     = ''__PROJECT_NAME__'' \<and>
   substituteAll (buildSubstitutions ''my_'') ''__PROJECT_NAME___PROJECT_NAME__''
     = ''my__PROJECT_NAME__'' \<and>
   substituteAll (buildSubstitutions ''E__x'') ''__PROJECT_NAM__PROJECT_NAME__''
     = ''__PROJECT_NAME__x''"
  by code_simp

text \<open>
  C6 (amended): after the substitution step of \<open>generateProject\<close>, every file of the
  target tree that is not under a \<open>node_modules\<close> or \<open>.git\<close> directory and whose
  extension is not a binary one holds the text that \<open>replaceAll\<close> makes of the text
  the copy put there, for \<open>__PROJECT_NAME__\<close> and the project name, then
  \<open>__PACKAGE_NAME__\<close> and its package name, then \<open>__PY_PACKAGE__\<close> and its Python
  package name. That text holds none of the three tokens, provided the package name and
  the Python package name are not empty and the project name has none of the patterns
  \<open>$&\<close>, \<open>$`\<close>, \<open>$'\<close> and, as it is put in, cannot make up \<open>__PROJECT_NAME__\<close>
  with the text around it: it does not hold that token, is not part of it, does not end
  with a beginning of it, and does not begin with an end of it, the ends \<open>_\<close> and
  \<open>__\<close> apart: the rest of the token before them makes the search from the left find
  an occurrence earlier.
\<close>

theorem substitution_leaves_no_placeholder:
  "generateAndSubstitute parse copy options fs = (None, fs') \<Longrightarrow>
   readFile (targetDir options @ rel) fs' = Inr content \<Longrightarrow>
   \<forall>d\<in>set (butlast rel). \<not> skipDir d \<Longrightarrow>
   \<not> isBinaryFile (last rel) BINARY_EXTENSIONS \<Longrightarrow>
   (\<exists>fs1 c0.
      copyTemplate copy
        (resolveTemplateFlavorPath parse (startersPath options) (templateId options)
           (flavorName options) fs)
        (targetDir options) fs = (None, fs1) \<and>
      readFile (targetDir options @ rel) fs1 = Inr c0 \<and>
      content =
        replaceAll PY_PACKAGE (toPythonPackage (projectName options))
          (replaceAll PACKAGE_NAME (toPackageName (projectName options))
            (replaceAll PROJECT_NAME (projectName options) c0))) \<and>
   (plainValue (projectName options) \<and>
    \<not> canFormToken PROJECT_NAME (getSubstitution [] [] [] (projectName options)) \<and>
    toPackageName (projectName options) \<noteq> [] \<and>
    toPythonPackage (projectName options) \<noteq> [] \<longrightarrow> \<not> hasPlaceholder content)"
proof -
  assume gen: "generateAndSubstitute parse copy options fs = (None, fs')"
    and rd: "readFile (targetDir options @ rel) fs' = Inr content"
    and dirs: "\<forall>d\<in>set (butlast rel). \<not> skipDir d"
    and nb: "\<not> isBinaryFile (last rel) BINARY_EXTENSIONS"
  let ?tp = "resolveTemplateFlavorPath parse (startersPath options) (templateId options)
           (flavorName options) fs"
  from gen obtain fs1 where
    cp: "copyTemplate copy ?tp (targetDir options) fs = (None, fs1)" and
    sub: "substituteInDirectory (targetDir options) (buildSubstitutions (projectName options)) fs1
       = (None, fs')"
    by (auto simp: generateAndSubstitute_def Let_def split: if_splits option.splits prod.splits)
  from substituteInDirectory_file [OF sub rd dirs] nb
  obtain c0 where c0: "readFile (targetDir options @ rel) fs1 = Inr c0"
    "content = substituteAll (buildSubstitutions (projectName options)) c0"
    by (auto simp: substituteInFile_def)
  from c0(2) have "plainValue (projectName options) \<and>
      \<not> canFormToken PROJECT_NAME (getSubstitution [] [] [] (projectName options)) \<and>
      toPackageName (projectName options) \<noteq> [] \<and>
      toPythonPackage (projectName options) \<noteq> [] \<longrightarrow> \<not> hasPlaceholder content"
    using substituteAll_clean [of "projectName options" c0] by simp
  with cp c0 show ?thesis by (auto simp: substituteAll_buildSubstitutions)
qed

theorem substitution_leaves_no_placeholder_witness:
  "generateAndSubstitute noParse copyIntoEmpty (optionsFor ''my-awesome-project'') fsStarters =
     (None, snd (generateAndSubstitute noParse copyIntoEmpty (optionsFor ''my-awesome-project'')
                   fsStarters)) \<and>
   readFile ([''work'', ''my-awesome-project''] @ [''README.md''])
     (snd (generateAndSubstitute noParse copyIntoEmpty (optionsFor ''my-awesome-project'')
             fsStarters))
     = Inr ''# my-awesome-project (my_awesome_project)'' \<and>
   \<not> isBinaryFile ''README.md'' BINARY_EXTENSIONS \<and>
   plainValue ''my-awesome-project'' \<and>
   \<not> canFormToken PROJECT_NAME (getSubstitution [] [] [] ''my-awesome-project'') \<and>
   toPackageName ''my-awesome-project'' \<noteq> [] \<and>
   toPythonPackage ''my-awesome-project'' \<noteq> [] \<and>
   \<not> hasPlaceholder ''# my-awesome-project (my_awesome_project)'' \<and>
   generateAndSubstitute noParse copyIntoEmpty (optionsFor ''MyApp'') fsStarters =
     (None, snd (generateAndSubstitute noParse copyIntoEmpty (optionsFor ''MyApp'') fsStarters)) \<and>
   readFile ([''work'', ''MyApp''] @ [''src'', ''index.ts''])
     (snd (generateAndSubstitute noParse copyIntoEmpty (optionsFor ''MyApp'') fsStarters))
     = Inr ''// MyApp'' \<and>
   \<not> skipDir ''src'' \<and>
   \<not> isBinaryFile ''index.ts'' BINARY_EXTENSIONS \<and>
   plainValue ''MyApp'' \<and>
   \<not> canFormToken PROJECT_NAME (getSubstitution [] [] [] ''MyApp'') \<and>
   toPackageName ''MyApp'' \<noteq> [] \<and> toPythonPackage ''MyApp'' \<noteq> [] \<and>
   \<not> hasPlaceholder ''// MyApp'' \<and>
   generateAndSubstitute noParse copyIntoEmpty (optionsFor ''_app'') fsStarters =
     (None, snd (generateAndSubstitute noParse copyIntoEmpty (optionsFor ''_app'') fsStarters)) \<and>
   readFile ([''work'', ''_app''] @ [''README.md''])
     (snd (generateAndSubstitute noParse copyIntoEmpty (optionsFor ''_app'') fsStarters))
     = Inr ''# _app (app)'' \<and>
   plainValue ''_app'' \<and>
   \<not> canFormToken PROJECT_NAME (getSubstitution [] [] [] ''_app'') \<and>
   toPackageName ''_app'' \<noteq> [] \<and> toPythonPackage ''_app'' \<noteq> [] \<and>
   \<not> hasPlaceholder ''# _app (app)''"
proof -
  have 1: "generateAndSubstitute noParse copyIntoEmpty (optionsFor ''my-awesome-project'') fsStarters =
     (None, snd (generateAndSubstitute noParse copyIntoEmpty (optionsFor ''my-awesome-project'')
                   fsStarters))"
    by code_simp
  have 2: "readFile (targetDir (optionsFor ''my-awesome-project'') @ [''README.md''])
     (snd (generateAndSubstitute noParse copyIntoEmpty (optionsFor ''my-awesome-project'')
             fsStarters))
     = Inr ''# my-awesome-project (my_awesome_project)''"
    by code_simp
  have 3: "\<forall>d\<in>set (butlast [''README.md'']). \<not> skipDir d" by simp
  have 4: "\<not> isBinaryFile (last [''README.md'']) BINARY_EXTENSIONS" by code_simp
  have 5: "plainValue ''my-awesome-project'' \<and>
    \<not> canFormToken PROJECT_NAME (getSubstitution [] [] [] ''my-awesome-project'') \<and>
    toPackageName ''my-awesome-project'' \<noteq> [] \<and>
    toPythonPackage ''my-awesome-project'' \<noteq> []"
    by code_simp
  from substitution_leaves_no_placeholder [OF 1 2 3 4] 5
  have a: "\<not> hasPlaceholder ''# my-awesome-project (my_awesome_project)''"
    by (simp add: optionsFor_def)
  have 6: "generateAndSubstitute noParse copyIntoEmpty (optionsFor ''MyApp'') fsStarters =
     (None, snd (generateAndSubstitute noParse copyIntoEmpty (optionsFor ''MyApp'') fsStarters))"
    by code_simp
  have 7: "readFile (targetDir (optionsFor ''MyApp'') @ [''src'', ''index.ts''])
     (snd (generateAndSubstitute noParse copyIntoEmpty (optionsFor ''MyApp'') fsStarters))
     = Inr ''// MyApp''"
    by code_simp
  have 8: "\<not> skipDir ''src''" by (simp add: skipDir_def)
  then have dirs: "\<forall>d\<in>set (butlast [''src'', ''index.ts'']). \<not> skipDir d" by simp
  have 9: "\<not> isBinaryFile (last [''src'', ''index.ts'']) BINARY_EXTENSIONS" by code_simp
  have 10: "plainValue ''MyApp'' \<and>
    \<not> canFormToken PROJECT_NAME (getSubstitution [] [] [] ''MyApp'') \<and>
    toPackageName ''MyApp'' \<noteq> [] \<and> toPythonPackage ''MyApp'' \<noteq> []"
    by code_simp
  from substitution_leaves_no_placeholder [OF 6 7 dirs 9] 10
  have b: "\<not> hasPlaceholder ''// MyApp''"
    by (simp add: optionsFor_def)
  have 11: "generateAndSubstitute noParse copyIntoEmpty (optionsFor ''_app'') fsStarters =
     (None, snd (generateAndSubstitute noParse copyIntoEmpty (optionsFor ''_app'') fsStarters))"
    by code_simp
  have 12: "readFile (targetDir (optionsFor ''_app'') @ [''README.md''])
     (snd (generateAndSubstitute noParse copyIntoEmpty (optionsFor ''_app'') fsStarters))
     = Inr ''# _app (app)''"
    by code_simp
  have 13: "plainValue ''_app'' \<and>
    \<not> canFormToken PROJECT_NAME (getSubstitution [] [] [] ''_app'') \<and>
    toPackageName ''_app'' \<noteq> [] \<and> toPythonPackage ''_app'' \<noteq> []"
    by code_simp
  from substitution_leaves_no_placeholder [OF 11 12 3 4] 13
  have c: "\<not> hasPlaceholder ''# _app (app)''"
    by (simp add: optionsFor_def)
  from 1 2 4 5 a 6 7 8 9 10 b 11 12 13 c show ?thesis by (simp add: optionsFor_def)
qed

lemma sublist_not_empty: "sublist ''not empty'' (targetNotEmpty p)"
  unfolding sublist_def targetNotEmpty_def
  by (rule exI [of _ "''Target directory is ''"],
      rule exI [of _ "'': '' @ pathString p @ [LF] @ ''Please choose an empty directory or a new path.''"])
     simp

lemma sublist_not_a_directory: "sublist ''not a directory'' (targetNotDirectory p)"
  unfolding sublist_def targetNotDirectory_def
  by (rule exI [of _ "''Target path exists but is ''"], rule exI [of _ "'': '' @ pathString p"]) simp

lemma validateTargetDir_rejects:
  assumes "stat targetPath fs = Inr n" and "n \<noteq> Dir []"
  shows "\<exists>msg. validateTargetDir targetPath fs = Some (Error msg) \<and>
           (case n of File c \<Rightarrow> sublist ''not a directory'' msg
            | Dir es \<Rightarrow> sublist ''not empty'' msg)"
proof (cases n)
  case (File c)
  with assms show ?thesis
    by (simp add: validateTargetDir_def sublist_not_a_directory)
next
  case (Dir es)
  with assms have "es \<noteq> []" by simp
  with Dir assms show ?thesis
    by (simp add: validateTargetDir_def sublist_not_empty)
qed

lemma sublist_Template_not_found: "sublist ''Template not found'' (templateNotFound tid fl tp)"
  unfolding sublist_def templateNotFound_def
  by (rule exI [of _ "[]"],
      rule exI [of _ "'': '' @ tid @ ''/'' @ fl @ [LF] @ ''Path: '' @ pathnameString tp @ [LF] @
                      ''Run with --list to see available templates.''"])
     simp

text \<open>
  C5, as stated, fails in its clause on the message: the source path of the template is
  checked first, so for a template that does not exist and a target directory that is
  not empty the error is "Template not found", and its message does not contain
  "not empty".
\<close>

theorem generateProject_rejects_target_counterexample:
  "stat (targetDir optionsMissingTemplate) fsStarters
     = Inr (Dir [(''existing.txt'', File ''content'')]) \<and>
   generateProject noParse copyIntoEmpty optionsMissingTemplate fsStarters =
     (Some (Error (''Template not found: missing/ts'' @ [LF] @
                   ''Path: /starters/templates/missing/ts'' @ [LF] @
                   ''Run with --list to see available templates.'')), fsStarters) \<and>
   \<not> sublist ''not empty'' (''Template not found: missing/ts'' @ [LF] @
                   ''Path: /starters/templates/missing/ts'' @ [LF] @
                   ''Run with --list to see available templates.'')"
  by code_simp

text \<open>
  C5 (amended): when the target path exists and is not a directory, or is a directory
  with at least one entry, \<open>generateProject\<close> fails and leaves the file system as it
  was. When the template's source path can be accessed, the error is the one of the
  target check: its message contains "not empty" for the directory and "not a
  directory" otherwise. When it cannot, the error is the one of the template check,
  "Template not found", which names the template, the flavor and the source path.
\<close>

theorem generateProject_rejects_target:
  "stat (targetDir options) fs = Inr n \<Longrightarrow> n \<noteq> Dir [] \<Longrightarrow>
   (\<exists>e. generateProject parse copy options fs = (Some e, fs) \<and>
        (access (resolveTemplateFlavorPath parse (startersPath options) (templateId options)
            (flavorName options) fs) fs \<longrightarrow>
           (\<exists>msg. e = Error msg \<and>
              (case n of File c \<Rightarrow> sublist ''not a directory'' msg
               | Dir es \<Rightarrow> sublist ''not empty'' msg))) \<and>
        (\<not> access (resolveTemplateFlavorPath parse (startersPath options) (templateId options)
            (flavorName options) fs) fs \<longrightarrow>
           (\<exists>msg. e = Error msg \<and> sublist ''Template not found'' msg \<and>
              msg = templateNotFound (templateId options) (flavorName options)
                      (resolveTemplateFlavorPath parse (startersPath options)
                         (templateId options) (flavorName options) fs))))"
proof -
  assume "stat (targetDir options) fs = Inr n" and "n \<noteq> Dir []"
  from validateTargetDir_rejects [OF this]
  obtain msg where "validateTargetDir (targetDir options) fs = Some (Error msg)"
    "case n of File c \<Rightarrow> sublist ''not a directory'' msg | Dir es \<Rightarrow> sublist ''not empty'' msg"
    by blast
  then show ?thesis
    by (auto simp: generateProject_def generateAndSubstitute_def Let_def
          sublist_Template_not_found)
qed

theorem generateProject_rejects_target_witness:
  "stat (targetDir (optionsFor ''busy'')) fsStarters
     = Inr (Dir [(''existing.txt'', File ''content'')]) \<and>
   Dir [(''existing.txt'', File ''content'')] \<noteq> Dir [] \<and>
   access (resolveTemplateFlavorPath noParse (startersPath (optionsFor ''busy''))
     (templateId (optionsFor ''busy'')) (flavorName (optionsFor ''busy'')) fsStarters) fsStarters \<and>
   (\<exists>msg. generateProject noParse copyIntoEmpty (optionsFor ''busy'') fsStarters
            = (Some (Error msg), fsStarters) \<and> sublist ''not empty'' msg) \<and>
   stat (targetDir optionsFileTarget) fsStarters = Inr (File ''content'') \<and>
   (\<exists>msg. generateProject noParse copyIntoEmpty optionsFileTarget fsStarters
            = (Some (Error msg), fsStarters) \<and> sublist ''not a directory'' msg) \<and>
   resolveTemplateFlavorPath noParse (startersPath optionsFileWithSeparator)
     (templateId optionsFileWithSeparator) (flavorName optionsFileWithSeparator) fsStarters
     = ([''starters'', ''templates'', ''agent'', ''ts'', ''README.md''], True) \<and>
   \<not> access ([''starters'', ''templates'', ''agent'', ''ts'', ''README.md''], True) fsStarters \<and>
   generateProject noParse copyIntoEmpty optionsFileWithSeparator fsStarters
     = (Some (Error (''Template not found: agent/ts/README.md/'' @ [LF] @
                     ''Path: /starters/templates/agent/ts/README.md/'' @ [LF] @
                     ''Run with --list to see available templates.'')), fsStarters)"
proof -
  have 1: "stat (targetDir (optionsFor ''busy'')) fsStarters
     = Inr (Dir [(''existing.txt'', File ''content'')])"
    by code_simp
  have 2: "Dir [(''existing.txt'', File ''content'')] \<noteq> Dir []" by simp
  have 3: "access (resolveTemplateFlavorPath noParse (startersPath (optionsFor ''busy''))
     (templateId (optionsFor ''busy'')) (flavorName (optionsFor ''busy'')) fsStarters) fsStarters"
    by code_simp
  from generateProject_rejects_target [OF 1 2, of noParse copyIntoEmpty] 3
  have a: "\<exists>msg. generateProject noParse copyIntoEmpty (optionsFor ''busy'') fsStarters
            = (Some (Error msg), fsStarters) \<and> sublist ''not empty'' msg"
    by auto
  have 4: "stat (targetDir optionsFileTarget) fsStarters = Inr (File ''content'')" by code_simp
  have 5: "File ''content'' \<noteq> Dir []" by simp
  have 6: "access (resolveTemplateFlavorPath noParse (startersPath optionsFileTarget)
     (templateId optionsFileTarget) (flavorName optionsFileTarget) fsStarters) fsStarters"
    by code_simp
  from generateProject_rejects_target [OF 4 5, of noParse copyIntoEmpty] 6
  have b: "\<exists>msg. generateProject noParse copyIntoEmpty optionsFileTarget fsStarters
            = (Some (Error msg), fsStarters) \<and> sublist ''not a directory'' msg"
    by auto
  have 7: "stat (targetDir optionsFileWithSeparator) fsStarters
     = Inr (Dir [(''existing.txt'', File ''content'')])"
    by code_simp
  have 8: "resolveTemplateFlavorPath noParse (startersPath optionsFileWithSeparator)
     (templateId optionsFileWithSeparator) (flavorName optionsFileWithSeparator) fsStarters
     = ([''starters'', ''templates'', ''agent'', ''ts'', ''README.md''], True)"
    by code_simp
  have 9: "\<not> access ([''starters'', ''templates'', ''agent'', ''ts'', ''README.md''], True) fsStarters"
    by code_simp
  have 10: "templateNotFound (templateId optionsFileWithSeparator) (flavorName optionsFileWithSeparator)
        ([''starters'', ''templates'', ''agent'', ''ts'', ''README.md''], True)
      = ''Template not found: agent/ts/README.md/'' @ [LF] @
        ''Path: /starters/templates/agent/ts/README.md/'' @ [LF] @
        ''Run with --list to see available templates.''"
    by code_simp
  from generateProject_rejects_target [OF 7 2, of noParse copyIntoEmpty] 8 9 10
  have c: "generateProject noParse copyIntoEmpty optionsFileWithSeparator fsStarters
     = (Some (Error (''Template not found: agent/ts/README.md/'' @ [LF] @
                     ''Path: /starters/templates/agent/ts/README.md/'' @ [LF] @
                     ''Run with --list to see available templates.'')), fsStarters)"
    by auto
  from 1 2 3 a 4 b 8 9 c show ?thesis by blast
qed

section \<open>Properties of template discovery\<close>

lemma stat_append:
  "stat (p @ q) fs = (case stat p fs of Inl e \<Rightarrow> Inl e | Inr n \<Rightarrow> stat q n)"
proof (induction p arbitrary: fs)
  case Nil
  then show ?case by simp
next
  case (Cons x xs)
  then show ?case by (cases fs) (auto split: option.splits)
qed

lemma wfNode_stat: "wfNode fs \<Longrightarrow> stat p fs = Inr n \<Longrightarrow> wfNode n"
proof (induction p arbitrary: fs)
  case Nil
  then show ?case by simp
next
  case (Cons x xs)
  show ?case
  proof (cases fs)
    case (File c)
    with Cons.prems show ?thesis by simp
  next
    case (Dir es)
    with Cons.prems obtain m where m: "map_of es x = Some m" "stat xs m = Inr n"
      by (auto split: option.splits)
    then have "(x, m) \<in> set es" by (simp add: map_of_SomeD)
    with Cons.prems(1) Dir have "wfNode m" by auto
    with Cons.IH m show ?thesis by blast
  qed
qed

lemma pathJoin_validName: "validName n \<Longrightarrow> pathJoin p n = p @ [n]"
  by (simp add: pathJoin_def validName_def splitOn_none joinSegment_def)

lemma stat_child:
  assumes "wfNode fs" and "stat p fs = Inr (Dir es)" and "(n, x) \<in> set es"
  shows "stat (pathJoin p n) fs = Inr x"
proof -
  from assms(1,2) have wf: "wfNode (Dir es)" by (rule wfNode_stat)
  with assms(3) have "validName n" and "map_of es n = Some x" by auto
  with assms(2) show ?thesis by (simp add: pathJoin_validName stat_append)
qed

lemma set_insertSorted: "set (insertSorted cmp x xs) = insert x (set xs)"
  by (induction xs) auto

lemma set_stableSort: "set (stableSort cmp xs) = set xs"
  by (induction xs) (auto simp: stableSort_def set_insertSorted)

lemma set_sortTemplates: "set (sortTemplates lc ts) = set ts"
  by (simp add: sortTemplates_def set_stableSort)

lemma collectFlavors_collected:
  "collected tp fs declared acc \<Longrightarrow> set fl \<subseteq> set declared \<Longrightarrow>
   collected tp fs declared (collectFlavors tp fs fl acc)"
proof (induction tp fs fl acc rule: collectFlavors.induct)
  case (1 templatePath fs acc)
  then show ?case by simp
next
  case (2 templatePath fs f rest flavors' flavorPaths')
  show ?case
  proof (cases "isDirectory (pathJoin templatePath (relativePathOf f)) fs")
    case True
    let ?acc = "(flavors' @ [flavorId f],
           if relativePathOf f \<noteq> flavorId f \<and> flavorId f \<noteq> ''__proto__''
           then AList.update (flavorId f) (relativePathOf f) flavorPaths' else flavorPaths')"
    from "2.prems" True have "collected templatePath fs declared ?acc"
      unfolding collected_def by (auto simp: update_conv' split: if_splits)
    with "2.IH"(1) [OF True] "2.prems"(2) True show ?thesis by simp
  next
    case False
    with "2.IH"(2) "2.prems" show ?thesis by simp
  qed
qed

lemma templatesFromManifestLoop_sound:
  "t \<in> set (templatesFromManifestLoop templatesDir fs entries) \<Longrightarrow>
   flavors t \<noteq> [] \<and>
   (\<forall>ps k p. flavorPaths t = Some ps \<and> map_of ps k = Some p \<longrightarrow>
      isDirectory (pathJoin (path t) p) fs) \<and>
   (\<exists>e\<in>set entries. entryId e = id t \<and> path t = pathJoin templatesDir (entryId e) \<and>
      isDirectory (path t) fs \<and>
      (\<forall>f\<in>set (flavors t). \<exists>mf\<in>set (entryFlavors e).
          flavorId mf = f \<and> isDirectory (pathJoin (path t) (relativePathOf mf)) fs))"
proof (induction entries)
  case Nil
  then show ?case by simp
next
  case (Cons entry rest)
  let ?tp = "pathJoin templatesDir (entryId entry)"
  obtain F P where FP: "collectFlavors ?tp fs (entryFlavors entry) ([], []) = (F, P)"
    by (cases "collectFlavors ?tp fs (entryFlavors entry) ([], [])")
  have "collected ?tp fs (entryFlavors entry) ([], [])" by (simp add: collected_def)
  from collectFlavors_collected [OF this subset_refl] FP
  have col: "collected ?tp fs (entryFlavors entry) (F, P)" by simp
  let ?t = "\<lparr>id = entryId entry, name = Some (entryName entry),
             description = Some (entryDescription entry), flavors = F,
             flavorPaths = (if P \<noteq> [] then Some P else None),
             path = ?tp, order = entryOrder entry, category = entryCategory entry,
             aliases = entryAliases entry, hidden = entryHidden entry,
             deprecated = entryDeprecated entry\<rparr>"
  from Cons.prems FP consider
    (here) "t = ?t" "F \<noteq> []" "isDirectory ?tp fs"
    | (later) "t \<in> set (templatesFromManifestLoop templatesDir fs rest)"
    by (auto simp: Let_def split: if_splits)
  then show ?case
  proof cases
    case here
    have "\<forall>ps k p. flavorPaths ?t = Some ps \<and> map_of ps k = Some p \<longrightarrow>
            isDirectory (pathJoin ?tp p) fs"
      using col by (cases "P = []") (auto simp: collected_def)
    moreover have "\<forall>f\<in>set F. \<exists>mf\<in>set (entryFlavors entry).
          flavorId mf = f \<and> isDirectory (pathJoin ?tp (relativePathOf mf)) fs"
      using col by (simp add: collected_def)
    ultimately show ?thesis using here by simp
  next
    case later
    from Cons.IH [OF this] show ?thesis by auto
  qed
qed

lemma scanTemplatesLoop_directoryScan:
  assumes wf: "wfNode fs" and td: "stat templatesDir fs = Inr (Dir es0)"
  shows "set es \<subseteq> set es0 \<Longrightarrow>
         scanTemplatesLoop templatesDir fs es = Inr (directoryScan templatesDir es)"
proof (induction es)
  case Nil
  then show ?case by (simp add: directoryScan_def)
next
  case (Cons e es)
  obtain d n where e: "e = (d, n)" by (cases e)
  from Cons.prems have rest: "scanTemplatesLoop templatesDir fs es = Inr (directoryScan templatesDir es)"
    by (intro Cons.IH) simp
  show ?case
  proof (cases n)
    case (File c)
    with e rest show ?thesis by (simp add: isDir_def directoryScan_def subdirectories_def)
  next
    case (Dir sub)
    from Cons.prems e have mem: "(d, n) \<in> set es0" by simp
    from stat_child [OF wf td mem] Dir have rd: "readdir (pathJoin templatesDir d) fs = Inr sub"
      by (simp add: readdir_def)
    from wfNode_stat [OF wf td] mem have "validName d" by auto
    then have pj: "pathJoin templatesDir d = templatesDir @ [d]" by (rule pathJoin_validName)
    from e Dir rest rd show ?thesis
      by (simp add: isDir_def directoryScan_def subdirectories_def scannedTemplate_def pj)
  qed
qed

lemma scanTemplates_directoryScan:
  assumes "wfNode fs" and "stat (pathJoin sp TEMPLATES_DIR) fs = Inr (Dir es)"
  shows "scanTemplates sp fs = Inr (directoryScan (pathJoin sp TEMPLATES_DIR) es)"
  using assms scanTemplatesLoop_directoryScan [OF assms subset_refl]
  by (simp add: scanTemplates_def Let_def pathExists_def readdir_def)

lemma scanTemplates_Inr:
  assumes "scanTemplates sp fs = Inr ts"
  shows "\<exists>es. stat (pathJoin sp TEMPLATES_DIR) fs = Inr (Dir es)"
  using assms
  by (auto simp: scanTemplates_def Let_def readdir_def split: if_splits sum.splits node.splits)

lemma directoryScan_sound:
  assumes wf: "wfNode fs" and td: "stat templatesDir fs = Inr (Dir es)"
    and t: "t \<in> set (directoryScan templatesDir es)"
  shows "flavors t \<noteq> [] \<and> (\<forall>f\<in>set (flavors t). isDirectory (pathJoin (path t) f) fs)"
proof -
  from t obtain d n where mem: "(d, n) \<in> set es" and ne: "subdirectories n \<noteq> []"
    and t_eq: "t = scannedTemplate templatesDir d (subdirectories n)"
    by (auto simp: directoryScan_def)
  from ne obtain sub where n: "n = Dir sub" by (cases n) (auto simp: subdirectories_def)
  from wfNode_stat [OF wf td] mem have "validName d" by auto
  then have pj: "pathJoin templatesDir d = templatesDir @ [d]" by (rule pathJoin_validName)
  from stat_child [OF wf td mem] n pj have sd: "stat (templatesDir @ [d]) fs = Inr (Dir sub)" by simp
  have "isDirectory (pathJoin (path t) f) fs" if "f \<in> set (flavors t)" for f
  proof -
    from that t_eq n obtain x where x: "(f, x) \<in> set sub" "isDir x"
      by (auto simp: scannedTemplate_def subdirectories_def)
    from stat_child [OF wf sd x(1)] x(2) show ?thesis
      by (cases x) (auto simp: t_eq scannedTemplate_def isDirectory_def isDir_def)
  qed
  with ne t_eq show ?thesis by (simp add: scannedTemplate_def)
qed

text \<open>
  C3: on a well-formed file system, every \<open>TemplateInfo\<close> that \<open>discoverTemplates\<close>
  returns has at least one flavor, and each of its flavors corresponds to a directory
  that exists. When the templates come from a manifest, the template is that of an
  entry of the manifest with its id, its directory is the entry's and exists, each of
  its flavors is the id of a flavor of that entry whose declared path (its \<open>path\<close>
  when given, else its id) is a directory under the template's directory, and so is
  every path that \<open>flavorPaths\<close> records. When they come from the directory scan, the
  flavor's id is a directory under the template's directory. So an entry none of whose
  flavors is on disk gives no template.
\<close>

theorem discoverTemplates_flavors_exist:
  "wfNode fs \<Longrightarrow> discoverTemplates parse lc onWarning sp fs = (warnings, Inr ts) \<Longrightarrow> t \<in> set ts \<Longrightarrow>
   flavors t \<noteq> [] \<and>
   (\<forall>m. readTemplateManifest parse sp fs = Inr (Some m) \<longrightarrow>
      (\<exists>e\<in>set (templates m). entryId e = id t \<and>
         path t = pathJoin (pathJoin sp TEMPLATES_DIR) (entryId e) \<and> isDirectory (path t) fs \<and>
         (\<forall>f\<in>set (flavors t). \<exists>mf\<in>set (entryFlavors e).
            flavorId mf = f \<and> isDirectory (pathJoin (path t) (relativePathOf mf)) fs)) \<and>
      (\<forall>ps k p. flavorPaths t = Some ps \<and> map_of ps k = Some p \<longrightarrow>
         isDirectory (pathJoin (path t) p) fs)) \<and>
   ((\<forall>m. readTemplateManifest parse sp fs \<noteq> Inr (Some m)) \<longrightarrow>
      (\<forall>f\<in>set (flavors t). isDirectory (pathJoin (path t) f) fs))"
proof -
  assume wf: "wfNode fs"
    and disc: "discoverTemplates parse lc onWarning sp fs = (warnings, Inr ts)"
    and t: "t \<in> set ts"
  show ?thesis
  proof (cases "\<exists>m. readTemplateManifest parse sp fs = Inr (Some m)")
    case True
    then obtain m where m: "readTemplateManifest parse sp fs = Inr (Some m)" by blast
    with disc have "ts = sortTemplates lc (templatesFromManifest sp m fs)"
      by (auto simp: discoverTemplates_def)
    with t have "t \<in> set (templatesFromManifestLoop (pathJoin sp TEMPLATES_DIR) fs (templates m))"
      by (simp add: set_sortTemplates templatesFromManifest_def)
    from templatesFromManifestLoop_sound [OF this] m show ?thesis by auto
  next
    case False
    with disc obtain ts0 where scan: "scanTemplates sp fs = Inr ts0" and ts: "ts = sortTemplates lc ts0"
      by (auto simp: discoverTemplates_def split: sum.splits option.splits)
    from scanTemplates_Inr [OF scan] obtain es
      where es: "stat (pathJoin sp TEMPLATES_DIR) fs = Inr (Dir es)" by blast
    from scanTemplates_directoryScan [OF wf es] scan
    have "ts0 = directoryScan (pathJoin sp TEMPLATES_DIR) es" by simp
    with t ts have "t \<in> set (directoryScan (pathJoin sp TEMPLATES_DIR) es)"
      by (simp add: set_sortTemplates)
    from directoryScan_sound [OF wf es this] False show ?thesis by auto
  qed
qed

theorem discoverTemplates_flavors_exist_witness:
  "wfNode fsManifest \<and>
   discoverTemplates parseManifest compareCodes True [''starters''] fsManifest
     = ([], Inr [agentInfo]) \<and>
   flavors agentInfo = [''ts'', ''py'', ''__proto__''] \<and>
   flavorPaths agentInfo = Some [(''py'', ''python'')] \<and>
   isDirectory [''starters'', ''templates'', ''agent'', ''ts''] fsManifest \<and>
   isDirectory [''starters'', ''templates'', ''agent'', ''python''] fsManifest \<and>
   \<not> isDirectory [''starters'', ''templates'', ''agent'', ''__proto__''] fsManifest \<and>
   (\<exists>e\<in>set (templates (the (projr (readTemplateManifest parseManifest [''starters''] fsManifest)))).
      entryId e = ''agent'' \<and>
      (\<exists>mf\<in>set (entryFlavors e). flavorId mf = ''__proto__'' \<and>
         isDirectory (pathJoin (path agentInfo) (relativePathOf mf)) fsManifest)) \<and>
   wfNode fsBadManifest \<and>
   discoverTemplates noParse compareCodes True [''starters''] fsBadManifest
     = ([buildManifestWarning [''starters'']
           (Error ''Invalid JSON in manifest: /starters/templates/manifest.json'')],
        Inr [scannedTemplate [''starters'', ''templates''] ''sample-template'' [''ts'']]) \<and>
   isDirectory [''starters'', ''templates'', ''sample-template'', ''ts''] fsBadManifest"
proof -
  have 1: "wfNode fsManifest" by code_simp
  have 2: "discoverTemplates parseManifest compareCodes True [''starters''] fsManifest
     = ([], Inr [agentInfo])"
    by code_simp
  have 3: "agentInfo \<in> set [agentInfo]" by simp
  have 4: "flavors agentInfo = [''ts'', ''py'', ''__proto__'']"
    "flavorPaths agentInfo = Some [(''py'', ''python'')]"
    "id agentInfo = ''agent''"
    "path agentInfo = [''starters'', ''templates'', ''agent'']"
    by (simp_all add: agentInfo_def)
  have 5: "isDirectory [''starters'', ''templates'', ''agent'', ''ts''] fsManifest"
    "isDirectory [''starters'', ''templates'', ''agent'', ''python''] fsManifest"
    "\<not> isDirectory [''starters'', ''templates'', ''agent'', ''__proto__''] fsManifest"
    by code_simp+
  have "case readTemplateManifest parseManifest [''starters''] fsManifest of
          Inr (Some m) \<Rightarrow> True | other \<Rightarrow> False"
    by code_simp
  then obtain m where m: "readTemplateManifest parseManifest [''starters''] fsManifest = Inr (Some m)"
    by (auto split: sum.splits option.splits)
  have 7: "wfNode fsBadManifest" by code_simp
  have 8: "discoverTemplates noParse compareCodes True [''starters''] fsBadManifest
     = ([buildManifestWarning [''starters'']
           (Error ''Invalid JSON in manifest: /starters/templates/manifest.json'')],
        Inr [scannedTemplate [''starters'', ''templates''] ''sample-template'' [''ts'']])"
    by code_simp
  have 9: "isDirectory [''starters'', ''templates'', ''sample-template'', ''ts''] fsBadManifest"
    by code_simp
  from discoverTemplates_flavors_exist [OF 1 2 3] m 4
  have "\<exists>e\<in>set (templates m). entryId e = ''agent'' \<and>
      (\<exists>mf\<in>set (entryFlavors e). flavorId mf = ''__proto__'' \<and>
         isDirectory (pathJoin (path agentInfo) (relativePathOf mf)) fsManifest)"
    by auto
  with m 1 2 4 5 7 8 9 show ?thesis by simp
qed






end
